theory Spec2Isabelle
  imports Main "HOL-Library.Sublist"
begin

section \<open>Strings\<close>

text \<open>
  A Go \<^verbatim>\<open>string\<close> is a sequence of bytes, and so is a HOL \<^typ>\<open>string\<close>: a list of
  8-bit characters. Equality of two such lists is the byte-exact comparison \<^verbatim>\<open>==\<close> of Go.
  The apostrophe is written \<^term>\<open>CHR 0x27\<close>.
\<close>

subsection \<open>The pattern \<^verbatim>\<open>\(\d{4}\)$\<close>\<close>

text \<open>
  The pattern matches an opening parenthesis, exactly four ASCII digits (\<^verbatim>\<open>\d\<close> is
  \<^verbatim>\<open>[0-9]\<close> in Go) and a closing parenthesis, and \<^verbatim>\<open>$\<close> without the multi-line flag
  holds at the end of the text only. A match can therefore only be the last six bytes of
  the subject.
\<close>

definition isDigit :: "char \<Rightarrow> bool" where
  "isDigit c \<longleftrightarrow> c \<in> set ''0123456789''"

fun year_group :: "string \<Rightarrow> bool" where
  "year_group [a, d1, d2, d3, d4, b] \<longleftrightarrow>
     a = CHR ''('' \<and> isDigit d1 \<and> isDigit d2 \<and> isDigit d3 \<and> isDigit d4 \<and> b = CHR '')''"
| "year_group _ \<longleftrightarrow> False"

definition MatchString :: "string \<Rightarrow> bool" where
  \<comment> \<open>does the pattern match somewhere in \<open>s\<close>\<close>
  "MatchString s \<longleftrightarrow> 6 \<le> length s \<and> year_group (drop (length s - 6) s)"

definition ReplaceAllString :: "string \<Rightarrow> string" where
  \<comment> \<open>\<^verbatim>\<open>r.ReplaceAllString(title, "")\<close>: every match (there is at most one) is deleted\<close>
  "ReplaceAllString s = (if MatchString s then take (length s - 6) s else s)"

subsection \<open>\<^verbatim>\<open>strings.TrimSpace\<close>\<close>

text \<open>
  \<^verbatim>\<open>strings.TrimSpace\<close> removes leading and trailing white space "as defined by Unicode":
  it decodes the string as UTF-8, one code point at a time from the front and then from the
  back, and drops the code points for which \<^verbatim>\<open>unicode.IsSpace\<close> holds. Those are U+0009 to
  U+000D, U+0020, U+0085, U+00A0, U+1680, U+2000 to U+200A, U+2028, U+2029, U+202F, U+205F and
  U+3000. The decoder yields one of them exactly when the bytes at hand are its (shortest)
  UTF-8 encoding; any other byte sequence, well formed or not, decodes to a code point
  that is not a space and stops the trimming. \<open>space_runes\<close> lists these encodings.
\<close>

definition space_runes :: "string list" where
  "space_runes =
     [[CHR 0x09], [CHR 0x0A], [CHR 0x0B], [CHR 0x0C], [CHR 0x0D], [CHR 0x20],
      [CHR 0xC2, CHR 0x85], [CHR 0xC2, CHR 0xA0],
      [CHR 0xE1, CHR 0x9A, CHR 0x80],
      [CHR 0xE2, CHR 0x80, CHR 0x80], [CHR 0xE2, CHR 0x80, CHR 0x81],
      [CHR 0xE2, CHR 0x80, CHR 0x82], [CHR 0xE2, CHR 0x80, CHR 0x83],
      [CHR 0xE2, CHR 0x80, CHR 0x84], [CHR 0xE2, CHR 0x80, CHR 0x85],
      [CHR 0xE2, CHR 0x80, CHR 0x86], [CHR 0xE2, CHR 0x80, CHR 0x87],
      [CHR 0xE2, CHR 0x80, CHR 0x88], [CHR 0xE2, CHR 0x80, CHR 0x89],
      [CHR 0xE2, CHR 0x80, CHR 0x8A],
      [CHR 0xE2, CHR 0x80, CHR 0xA8], [CHR 0xE2, CHR 0x80, CHR 0xA9],
      [CHR 0xE2, CHR 0x80, CHR 0xAF],
      [CHR 0xE2, CHR 0x81, CHR 0x9F],
      [CHR 0xE3, CHR 0x80, CHR 0x80]]"

definition leading_space :: "string \<Rightarrow> string option" where
  \<comment> \<open>the encoded space the string starts with, if it starts with one\<close>
  "leading_space s = find (\<lambda>w. prefix w s) space_runes"

definition trailing_space :: "string \<Rightarrow> string option" where
  \<comment> \<open>the encoded space the string ends with, if it ends with one\<close>
  "trailing_space s = find (\<lambda>w. suffix w s) space_runes"

lemma space_runes_nonempty: "w \<in> set space_runes \<Longrightarrow> w \<noteq> []"
  by (auto simp: space_runes_def)

lemma leading_space_Some:
  "leading_space s = Some w \<Longrightarrow> w \<in> set space_runes \<and> w \<noteq> [] \<and> prefix w s"
  unfolding leading_space_def
  by (auto simp: find_Some_iff intro!: space_runes_nonempty)

lemma trailing_space_Some:
  "trailing_space s = Some w \<Longrightarrow> w \<in> set space_runes \<and> w \<noteq> [] \<and> suffix w s"
  unfolding trailing_space_def
  by (auto simp: find_Some_iff intro!: space_runes_nonempty)

function TrimLeft :: "string \<Rightarrow> string" where
  "TrimLeft s =
     (case leading_space s of None \<Rightarrow> s | Some w \<Rightarrow> TrimLeft (drop (length w) s))"
  by pat_completeness auto
termination
proof (relation "measure length")
  show "wf (measure length)" by simp
next
  fix s w assume "leading_space s = Some w"
  then have "w \<noteq> []" "prefix w s" using leading_space_Some by blast+
  then show "(drop (length w) s, s) \<in> measure length"
    by (cases s) (auto simp: prefix_def)
qed

function TrimRight :: "string \<Rightarrow> string" where
  "TrimRight s =
     (case trailing_space s of None \<Rightarrow> s
      | Some w \<Rightarrow> TrimRight (take (length s - length w) s))"
  by pat_completeness auto
termination
proof (relation "measure length")
  show "wf (measure length)" by simp
next
  fix s w assume "trailing_space s = Some w"
  then have "w \<noteq> []" "suffix w s" using trailing_space_Some by blast+
  then show "(take (length s - length w) s, s) \<in> measure length"
    by (cases s) (auto simp: suffix_def)
qed

declare TrimLeft.simps [simp del] TrimRight.simps [simp del]

definition TrimSpace :: "string \<Rightarrow> string" where
  "TrimSpace s = TrimRight (TrimLeft s)"

subsection \<open>Title normalization\<close>

text \<open>
  The first three statements of \<^verbatim>\<open>findNetflixID\<close> after the pattern is compiled:
  \<^verbatim>\<open>title = r.ReplaceAllString(title, "")\<close>,
  \<^verbatim>\<open>title = strings.Replace(title, "'", "", -1)\<close> and
  \<^verbatim>\<open>title = strings.TrimSpace(title)\<close>, in this order.
\<close>

definition Replace_apostrophe :: "string \<Rightarrow> string" where
  \<comment> \<open>\<^verbatim>\<open>strings.Replace(s, "'", "", -1)\<close>: every apostrophe byte is deleted\<close>
  "Replace_apostrophe s = filter (\<lambda>c. c \<noteq> CHR 0x27) s"

definition normalize :: "string \<Rightarrow> string" where
  "normalize title = TrimSpace (Replace_apostrophe (ReplaceAllString title))"


section \<open>Errors\<close>

text \<open>
  A Go \<^verbatim>\<open>error\<close> is a value. The ones of \<^verbatim>\<open>encoding/json\<close> are kept apart by kind (what is
  wrong where in the input is left out); any other library error is a \<open>Fault\<close> with its
  text. \<open>Wrap err message\<close> is \<^verbatim>\<open>errors.Wrap(err, message)\<close>, and \<^verbatim>\<open>errors.Wrapf\<close> with the
  message already formatted: an error that carries \<open>err\<close> as its cause and reads
  \<open>message: err\<close>.
\<close>

datatype error =
    SyntaxError
  | UnmarshalTypeError
  | Fault string
  | Wrap error string

text \<open>
  The error result of \<^verbatim>\<open>regexp.Compile\<close> for the pattern of \<^verbatim>\<open>findNetflixID\<close>. The pattern
  is a constant of the program and well formed, so the result is \<^verbatim>\<open>nil\<close> on every run.
\<close>

definition Compile :: "error option" where
  "Compile = None"

section \<open>The response types\<close>

record unogsResponse =
  Count :: string
  Items :: "(string \<rightharpoonup> string) list"

record netflixCountry =
  Code :: string

record netflixLookupResult =
  Country :: "netflixCountry list"

record netflixLookup =
  Result :: netflixLookupResult

text \<open>
  The index expression \<^verbatim>\<open>item["title"]\<close> on a \<^verbatim>\<open>map[string]string\<close>: the value stored
  under the key, and the empty string when the key is absent (or the map is \<^verbatim>\<open>nil\<close>, which
  has no key).
\<close>

definition index :: "(string \<rightharpoonup> string) \<Rightarrow> string \<Rightarrow> string" where
  "index m k = (case m k of None \<Rightarrow> [] | Some v \<Rightarrow> v)"

section \<open>HTTP\<close>

text \<open>
  What the program does to the world is to send requests; the state threaded through the
  functions below is the list of requests handed to \<^verbatim>\<open>httpClient.Do\<close> so far, oldest first
  (a request that \<^verbatim>\<open>Do\<close> fails on was handed to it, too).
  The world's answers are parameters, collected in an environment: whether \<^verbatim>\<open>http.NewRequest\<close>
  accepts a URL, what \<^verbatim>\<open>Do\<close> returns for a request (it may depend on the requests sent before),
  and the two uses of \<^verbatim>\<open>json.Unmarshal\<close>, one for each target type. A response body is a stream
  that delivers chunks of bytes and ends or fails. A request records the URL as the text
  it was built from; \<^verbatim>\<open>http.NewRequest\<close> parses that text, and what goes on the wire is
  derived from the parsed form.
\<close>

record request =
  Method :: string
  URL :: string
  Header :: "(string \<times> string) list"

datatype body = EOF | Data string body | ReadError error

record response =
  StatusCode :: int
  Body :: body

fun ReadAll :: "body \<Rightarrow> error + string" where
  "ReadAll EOF = Inr []"
| "ReadAll (Data d rest) =
     (case ReadAll rest of Inl err \<Rightarrow> Inl err | Inr bytes \<Rightarrow> Inr (d @ bytes))"
| "ReadAll (ReadError err) = Inl err"

record env =
  url_error :: "string \<Rightarrow> error option"
  Do :: "request list \<Rightarrow> request \<Rightarrow> error + response"
  Unmarshal_unogsResponse :: "string \<Rightarrow> error + unogsResponse"
  Unmarshal_netflixLookup :: "string \<Rightarrow> error + netflixLookup"

definition NewRequest :: "env \<Rightarrow> string \<Rightarrow> string \<Rightarrow> error + request" where
  "NewRequest env method url =
     (case url_error env url of
        Some err \<Rightarrow> Inl err
      | None \<Rightarrow> Inr \<lparr>Method = method, URL = url, Header = []\<rparr>)"

text \<open>
  \<^verbatim>\<open>req.Header.Add(key, val)\<close> stores the value under the canonical form of the key: when
  every byte of the key may occur in a header name, the first letter and each letter after
  a hyphen are made upper case and the other letters lower case; otherwise the key is left
  as it is.
\<close>

definition lower_letters :: string where
  "lower_letters = ''abcdefghijklmnopqrstuvwxyz''"

definition upper_letters :: string where
  "upper_letters = ''ABCDEFGHIJKLMNOPQRSTUVWXYZ''"

definition validHeaderFieldByte :: "char \<Rightarrow> bool" where
  "validHeaderFieldByte c \<longleftrightarrow>
     c \<in> set lower_letters \<or> c \<in> set upper_letters \<or> c \<in> set ''0123456789''
     \<or> c \<in> set ''!#$%&*+-.^_|~'' \<or> c = CHR 0x27 \<or> c = CHR 0x60"

definition header_upper :: "char \<Rightarrow> char" where
  "header_upper c = (case map_of (zip lower_letters upper_letters) c of None \<Rightarrow> c | Some u \<Rightarrow> u)"

definition header_lower :: "char \<Rightarrow> char" where
  "header_lower c = (case map_of (zip upper_letters lower_letters) c of None \<Rightarrow> c | Some l \<Rightarrow> l)"

fun canonical :: "bool \<Rightarrow> string \<Rightarrow> string" where
  "canonical upper [] = []"
| "canonical upper (c # cs) =
     (if upper then header_upper c else header_lower c) # canonical (c = CHR ''-'') cs"

definition CanonicalMIMEHeaderKey :: "string \<Rightarrow> string" where
  "CanonicalMIMEHeaderKey key =
     (if list_all validHeaderFieldByte key then canonical True key else key)"

definition Header_Add :: "string \<Rightarrow> string \<Rightarrow> request \<Rightarrow> request" where
  "Header_Add key val req =
     req\<lparr>Header := Header req @ [(CanonicalMIMEHeaderKey key, val)]\<rparr>"

definition callUnogs ::
  "env \<Rightarrow> string \<Rightarrow> string \<Rightarrow> request list \<Rightarrow> (error + string) \<times> request list" where
  "callUnogs env url apiKey sent =
     (case NewRequest env ''GET'' url of
        Inl err \<Rightarrow> (Inl (Wrap err ''creating request''), sent)
      | Inr req0 \<Rightarrow>
          (let req = Header_Add ''X-RapidAPI-Key'' apiKey req0 in
           case Do env sent req of
             Inl err \<Rightarrow> (Inl err, sent @ [req])
           | Inr resp \<Rightarrow>
               (case ReadAll (Body resp) of
                  Inl err \<Rightarrow> (Inl (Wrap err ''reading uNoGS body''), sent @ [req])
                | Inr bytes \<Rightarrow> (Inr bytes, sent @ [req]))))"

section \<open>Building the URLs\<close>

text \<open>
  \<^verbatim>\<open>url.QueryEscape\<close> keeps ASCII letters, digits and \<^verbatim>\<open>- _ . ~\<close>, writes a space as \<^verbatim>\<open>+\<close>
  and every other byte as \<^verbatim>\<open>%\<close> and two upper-case hexadecimal digits. The verb \<^verbatim>\<open>%d\<close> of
  \<^verbatim>\<open>fmt.Sprintf\<close> writes an integer in decimal, with a minus sign when it is negative; the
  year is a Go \<^verbatim>\<open>int\<close>, a subrange of the integers used here.
\<close>

definition upperhex :: string where
  "upperhex = ''0123456789ABCDEF''"

definition isAlnum :: "char \<Rightarrow> bool" where
  "isAlnum c \<longleftrightarrow>
     c \<in> set ''abcdefghijklmnopqrstuvwxyzABCDEFGHIJKLMNOPQRSTUVWXYZ0123456789''"

definition shouldEscape :: "char \<Rightarrow> bool" where
  "shouldEscape c \<longleftrightarrow> \<not> (isAlnum c \<or> c \<in> set ''-_.~'')"

definition escape :: "char \<Rightarrow> string" where
  "escape c =
     (if c = CHR '' '' then ''+''
      else if shouldEscape c
        then [CHR ''%'', upperhex ! (of_char c div 16), upperhex ! (of_char c mod 16)]
      else [c])"

definition QueryEscape :: "string \<Rightarrow> string" where
  "QueryEscape s = concat (map escape s)"

function decimal :: "int \<Rightarrow> string" where
  "decimal n =
     (if n < 10 then [''0123456789'' ! nat n]
      else decimal (n div 10) @ [''0123456789'' ! nat (n mod 10)])"
  by pat_completeness auto
termination
  by (relation "measure nat") auto

declare decimal.simps [simp del]

definition Sprintf_d :: "int \<Rightarrow> string" where
  "Sprintf_d i = (if i < 0 then CHR ''-'' # decimal (- i) else decimal i)"

definition search_url :: "string \<Rightarrow> int \<Rightarrow> string" where
  "search_url title year =
     ''https://unogs-unogs-v1.p.rapidapi.com/aaapi.cgi?q='' @ QueryEscape title @ ''-!''
       @ Sprintf_d year @ '','' @ Sprintf_d year
       @ ''-!0,5-!0,10-!0-!Any-!Any-!Any-!gt100-!{downloadable}&t=ns&cl=all&st=adv&ob=Relevance&p=1&sa=and''"

definition loadvideo_url :: "string \<Rightarrow> string" where
  "loadvideo_url ident =
     ''https://unogs-unogs-v1.p.rapidapi.com/aaapi.cgi?t=loadvideo&q='' @ ident"

section \<open>The pipeline\<close>

text \<open>
  \<open>first_match\<close> is the loop of \<^verbatim>\<open>findNetflixID\<close> over \<^verbatim>\<open>result.Items\<close> together with the
  \<^verbatim>\<open>return "", nil\<close> after it, and \<open>any_us\<close> the loop of \<^verbatim>\<open>findOnNetflixUSA\<close> over
  \<^verbatim>\<open>lookup.Result.Country\<close> with the \<^verbatim>\<open>return false, nil\<close> after it. Neither loop can
  fail. The parameter \<^verbatim>\<open>id\<close> of \<^verbatim>\<open>findOnNetflixUSA\<close> is called \<open>ident\<close>, and the
  variable \<^verbatim>\<open>title\<close> of \<^verbatim>\<open>findNetflixID\<close>, which the function overwrites, is \<open>title0\<close>
  before and \<open>title\<close> after the normalization.
\<close>

fun first_match :: "string \<Rightarrow> (string \<rightharpoonup> string) list \<Rightarrow> string" where
  "first_match title [] = []"
| "first_match title (item # rest) =
     (if index item ''title'' = title then index item ''netflixid''
      else first_match title rest)"

definition findNetflixID ::
  "env \<Rightarrow> string \<Rightarrow> int \<Rightarrow> string \<Rightarrow> request list \<Rightarrow> (error + string) \<times> request list" where
  "findNetflixID env title0 year apiKey sent =
     (case Compile of
        Some err \<Rightarrow> (Inl (Wrap err ''compiling regexp''), sent)
      | None \<Rightarrow>
          (let title = normalize title0 in
           case callUnogs env (search_url title year) apiKey sent of
             (Inl err, sent') \<Rightarrow> (Inl err, sent')
           | (Inr bytes, sent') \<Rightarrow>
               (case Unmarshal_unogsResponse env bytes of
                  Inl err \<Rightarrow>
                    (Inl (Wrap err (''unmarshaling netflix API response: '' @ bytes)), sent')
                | Inr result \<Rightarrow> (Inr (first_match title (Items result)), sent'))))"

fun any_us :: "netflixCountry list \<Rightarrow> bool" where
  "any_us [] = False"
| "any_us (country # rest) = (if Code country = ''us'' then True else any_us rest)"

definition findOnNetflixUSA ::
  "env \<Rightarrow> string \<Rightarrow> string \<Rightarrow> request list \<Rightarrow> (error + bool) \<times> request list" where
  "findOnNetflixUSA env ident apiKey sent =
     (case callUnogs env (loadvideo_url ident) apiKey sent of
        (Inl err, sent') \<Rightarrow> (Inl err, sent')
      | (Inr bytes, sent') \<Rightarrow>
          (case Unmarshal_netflixLookup env bytes of
             Inl err \<Rightarrow>
               (Inl (Wrap err (''unmarshaling netflix API response: '' @ bytes)), sent')
           | Inr lookup \<Rightarrow> (Inr (any_us (Country (Result lookup))), sent')))"

definition findOnNetflix ::
  "env \<Rightarrow> string \<Rightarrow> int \<Rightarrow> string \<Rightarrow> request list \<Rightarrow> (error + bool) \<times> request list" where
  "findOnNetflix env title year apiKey sent =
     (case findNetflixID env title year apiKey sent of
        (Inl err, sent') \<Rightarrow> (Inl (Wrap err ''finding Netflix ID''), sent')
      | (Inr netflixID, sent') \<Rightarrow>
          (if netflixID = [] then (Inr False, sent')
           else findOnNetflixUSA env netflixID apiKey sent'))"

section \<open>\<^verbatim>\<open>encoding/json\<close>\<close>

text \<open>
  What \<^verbatim>\<open>json.Unmarshal\<close> does with a body, for the two types it is called with. The
  library works in two passes. It first checks the whole input against the JSON grammar and
  returns a syntax error, storing nothing, when the check fails. Then it walks the input
  again and stores each value into the Go value it was given; a JSON value that does not
  fit the Go type there is recorded as a type error, the walk goes on, and the first such
  error is returned at the end. Here the first pass yields the syntax tree (\<open>parse_json\<close>)
  and the second is a function on the tree, one per Go type.
\<close>

subsection \<open>Syntax\<close>

datatype json =
    JNull
  | JBool bool
  | JNumber string
  | JString string
  | JArray "json list"
  | JObject "(string \<times> json) list"

datatype token =
    TBeginObject | TEndObject | TBeginArray | TEndArray | TColon | TComma
  | TString string | TNumber string | TTrue | TFalse | TNull

text \<open>
  String literals are unquoted as the library does it: an escape is replaced by the bytes it
  stands for, with \<^verbatim>\<open>\u\<close> escapes read as UTF-16 (a surrogate pair gives one code point, a
  lone surrogate the replacement character U+FFFD); a well-formed UTF-8 sequence is copied;
  and each byte that starts no well-formed sequence is replaced by U+FFFD. Control
  characters, an unknown escape and a missing closing quote are syntax errors.
  \<open>rune_width\<close> is the length of the well-formed UTF-8 sequence at the front of a string,
  and 0 when there is none.
\<close>

definition byte :: "char \<Rightarrow> nat" where
  "byte c = of_char c"

definition between :: "char \<Rightarrow> nat \<Rightarrow> nat \<Rightarrow> bool" where
  "between c lo hi \<longleftrightarrow> lo \<le> byte c \<and> byte c \<le> hi"

fun rune_width :: "string \<Rightarrow> nat" where
  "rune_width [] = 0"
| "rune_width (c # cs) =
     (if byte c < 0x80 then 1
      else if between c 0xC2 0xDF then
        (case cs of c1 # _ \<Rightarrow> if between c1 0x80 0xBF then 2 else 0 | _ \<Rightarrow> 0)
      else if between c 0xE0 0xEF then
        (case cs of
           c1 # c2 # _ \<Rightarrow>
             if between c1 (if byte c = 0xE0 then 0xA0 else 0x80)
                           (if byte c = 0xED then 0x9F else 0xBF)
                \<and> between c2 0x80 0xBF
             then 3 else 0
         | _ \<Rightarrow> 0)
      else if between c 0xF0 0xF4 then
        (case cs of
           c1 # c2 # c3 # _ \<Rightarrow>
             if between c1 (if byte c = 0xF0 then 0x90 else 0x80)
                           (if byte c = 0xF4 then 0x8F else 0xBF)
                \<and> between c2 0x80 0xBF \<and> between c3 0x80 0xBF
             then 4 else 0
         | _ \<Rightarrow> 0)
      else 0)"

definition RuneError :: nat where
  "RuneError = 0xFFFD"

definition EncodeRune :: "nat \<Rightarrow> string" where
  "EncodeRune r =
     (if r < 0x80 then [char_of r]
      else if r < 0x800 then [char_of (0xC0 + r div 64), char_of (0x80 + r mod 64)]
      else if (0xD800 \<le> r \<and> r < 0xE000) \<or> 0x10FFFF < r then [CHR 0xEF, CHR 0xBF, CHR 0xBD]
      else if r < 0x10000 then
        [char_of (0xE0 + r div 4096), char_of (0x80 + r div 64 mod 64), char_of (0x80 + r mod 64)]
      else
        [char_of (0xF0 + r div 262144), char_of (0x80 + r div 4096 mod 64),
         char_of (0x80 + r div 64 mod 64), char_of (0x80 + r mod 64)])"

definition hexval :: "char \<Rightarrow> nat option" where
  "hexval c =
     (if between c 0x30 0x39 then Some (byte c - 0x30)
      else if between c 0x61 0x66 then Some (byte c - 0x61 + 10)
      else if between c 0x41 0x46 then Some (byte c - 0x41 + 10)
      else None)"

fun getu4 :: "string \<Rightarrow> nat option" where
  "getu4 (b # u # h1 # h2 # h3 # h4 # _) =
     (if b = CHR 0x5C \<and> u = CHR ''u'' then
        (case (hexval h1, hexval h2, hexval h3, hexval h4) of
           (Some x1, Some x2, Some x3, Some x4) \<Rightarrow> Some (((x1 * 16 + x2) * 16 + x3) * 16 + x4)
         | _ \<Rightarrow> None)
      else None)"
| "getu4 _ = None"

definition IsSurrogate :: "nat \<Rightarrow> bool" where
  "IsSurrogate r \<longleftrightarrow> 0xD800 \<le> r \<and> r < 0xE000"

definition utf16_DecodeRune :: "nat \<Rightarrow> nat option \<Rightarrow> nat" where
  "utf16_DecodeRune r1 r2 =
     (case r2 of
        None \<Rightarrow> RuneError
      | Some r2 \<Rightarrow>
          if 0xD800 \<le> r1 \<and> r1 < 0xDC00 \<and> 0xDC00 \<le> r2 \<and> r2 < 0xE000
          then (r1 - 0xD800) * 1024 + (r2 - 0xDC00) + 0x10000
          else RuneError)"

definition simple_escape :: "char \<Rightarrow> char option" where
  "simple_escape e =
     (if e = CHR 0x22 \<or> e = CHR 0x5C \<or> e = CHR ''/'' then Some e
      else if e = CHR ''b'' then Some (CHR 0x08)
      else if e = CHR ''f'' then Some (CHR 0x0C)
      else if e = CHR ''n'' then Some (CHR 0x0A)
      else if e = CHR ''r'' then Some (CHR 0x0D)
      else if e = CHR ''t'' then Some (CHR 0x09)
      else None)"

definition emit :: "string \<Rightarrow> (string \<times> string) option \<Rightarrow> (string \<times> string) option" where
  "emit out r = map_option (\<lambda>(str, rest). (out @ str, rest)) r"

function lex_string :: "string \<Rightarrow> (string \<times> string) option" where
  "lex_string [] = None"
| "lex_string (c # cs) =
     (if c = CHR 0x22 then Some ([], cs)
      else if c = CHR 0x5C then
        (case cs of
           [] \<Rightarrow> None
         | e # es \<Rightarrow>
             if e = CHR ''u'' then
               (case getu4 (c # cs) of
                  None \<Rightarrow> None
                | Some rr \<Rightarrow>
                    if IsSurrogate rr then
                      (if utf16_DecodeRune rr (getu4 (drop 5 cs)) \<noteq> RuneError
                       then emit (EncodeRune (utf16_DecodeRune rr (getu4 (drop 5 cs))))
                              (lex_string (drop 11 cs))
                       else emit (EncodeRune RuneError) (lex_string (drop 5 cs)))
                    else emit (EncodeRune rr) (lex_string (drop 5 cs)))
             else
               (case simple_escape e of
                  None \<Rightarrow> None
                | Some b \<Rightarrow> emit [b] (lex_string es)))
      else if byte c < 0x20 then None
      else if byte c < 0x80 then emit [c] (lex_string cs)
      else if rune_width (c # cs) = 0 then emit (EncodeRune RuneError) (lex_string cs)
      else emit (take (rune_width (c # cs)) (c # cs))
             (lex_string (drop (rune_width (c # cs) - 1) cs)))"
  by pat_completeness auto
termination
  by (relation "measure length") auto


lemma emit_rest: "emit out r = Some (str, rest) \<Longrightarrow> \<exists>str'. r = Some (str', rest)"
  by (auto simp: emit_def)

lemma lex_string_rest_bounded:
  "length s \<le> n \<Longrightarrow> lex_string s = Some (str, rest) \<Longrightarrow> length rest < length s"
proof (induction n arbitrary: s str)
  case 0
  then show ?case by simp
next
  case (Suc n)
  have step: "length rest < length t"
    if "emit out (lex_string t) = Some (str, rest)" and "length t \<le> n" for out t
  proof -
    from that(1) obtain str' where "lex_string t = Some (str', rest)"
      using emit_rest by blast
    with that(2) show ?thesis using Suc.IH by blast
  qed
  show ?case
  proof (cases s)
    case Nil
    with Suc.prems show ?thesis by simp
  next
    case (Cons c cs)
    with Suc.prems show ?thesis
      by (auto simp del: rune_width.simps getu4.simps
          split: if_splits list.splits option.splits
          dest!: step)
  qed
qed

lemma lex_string_rest: "lex_string s = Some (str, rest) \<Longrightarrow> length rest < length s"
  using lex_string_rest_bounded [of s "length s"] by simp

text \<open>
  A number is an optional minus sign, an integer part without a superfluous leading zero, an
  optional fraction and an optional exponent.
\<close>

definition lex_int :: "string \<Rightarrow> (string \<times> string) option" where
  "lex_int s =
     (case s of
        [] \<Rightarrow> None
      | d # ds \<Rightarrow>
          if d = CHR ''0'' then Some ([d], ds)
          else if isDigit d then Some (d # takeWhile isDigit ds, dropWhile isDigit ds)
          else None)"

definition lex_frac :: "string \<Rightarrow> (string \<times> string) option" where
  "lex_frac s =
     (case s of
        [] \<Rightarrow> Some ([], s)
      | c # cs \<Rightarrow>
          if c = CHR ''.'' then
            (if takeWhile isDigit cs = [] then None
             else Some (c # takeWhile isDigit cs, dropWhile isDigit cs))
          else Some ([], s))"

definition lex_sign :: "string \<Rightarrow> string \<times> string" where
  "lex_sign s =
     (case s of
        [] \<Rightarrow> ([], s)
      | c # cs \<Rightarrow> if c = CHR ''+'' \<or> c = CHR ''-'' then ([c], cs) else ([], s))"

definition lex_exp :: "string \<Rightarrow> (string \<times> string) option" where
  "lex_exp s =
     (case s of
        [] \<Rightarrow> Some ([], s)
      | c # cs \<Rightarrow>
          if c = CHR ''e'' \<or> c = CHR ''E'' then
            (case lex_sign cs of
               (sg, r) \<Rightarrow>
                 if takeWhile isDigit r = [] then None
                 else Some (c # sg @ takeWhile isDigit r, dropWhile isDigit r))
          else Some ([], s))"

definition lex_number :: "string \<Rightarrow> (string \<times> string) option" where
  "lex_number s =
     (case (case s of c # cs \<Rightarrow> if c = CHR ''-'' then ([c], cs) else ([], s) | [] \<Rightarrow> ([], s)) of
        (neg, s1) \<Rightarrow>
          (case lex_int s1 of
             None \<Rightarrow> None
           | Some (ip, s2) \<Rightarrow>
               (case lex_frac s2 of
                  None \<Rightarrow> None
                | Some (fp, s3) \<Rightarrow>
                    (case lex_exp s3 of
                       None \<Rightarrow> None
                     | Some (ep, s4) \<Rightarrow> Some (neg @ ip @ fp @ ep, s4)))))"

lemma length_dropWhile_less: "length (dropWhile P xs) < Suc (length xs)"
  by (simp add: length_dropWhile_le less_Suc_eq_le)

lemma lex_int_rest: "lex_int s = Some (lit, rest) \<Longrightarrow> length rest < length s"
  by (auto simp: lex_int_def length_dropWhile_less split: list.splits if_splits)

lemma lex_frac_rest: "lex_frac s = Some (lit, rest) \<Longrightarrow> length rest \<le> length s"
  by (auto simp: lex_frac_def length_dropWhile_le le_SucI split: list.splits if_splits)

lemma lex_sign_rest: "lex_sign s = (sg, rest) \<Longrightarrow> length rest \<le> length s"
  by (auto simp: lex_sign_def split: list.splits if_splits)

lemma lex_exp_rest: "lex_exp s = Some (lit, rest) \<Longrightarrow> length rest \<le> length s"
proof -
  assume a: "lex_exp s = Some (lit, rest)"
  show ?thesis
  proof (cases s)
    case Nil
    with a show ?thesis by (simp add: lex_exp_def)
  next
    case (Cons c cs)
    obtain sg r where sr: "lex_sign cs = (sg, r)" by fastforce
    then have "length r \<le> length cs" by (rule lex_sign_rest)
    moreover have "length (dropWhile isDigit r) \<le> length r" by (rule length_dropWhile_le)
    ultimately show ?thesis using a Cons sr
      by (auto simp: lex_exp_def split: if_splits)
  qed
qed

lemma lex_number_rest: "lex_number s = Some (lit, rest) \<Longrightarrow> length rest < length s"
proof -
  assume a: "lex_number s = Some (lit, rest)"
  obtain neg s1 where m: "(case s of c # cs \<Rightarrow> if c = CHR ''-'' then ([c], cs) else ([], s)
      | [] \<Rightarrow> ([], s)) = (neg, s1)" by fastforce
  then have l1: "length s1 \<le> length s" by (auto split: list.splits if_splits)
  from a m obtain ip s2 fp s3 ep where
    i: "lex_int s1 = Some (ip, s2)" and f: "lex_frac s2 = Some (fp, s3)"
    and e: "lex_exp s3 = Some (ep, rest)"
    by (auto simp: lex_number_def split: option.splits)
  from lex_int_rest[OF i] lex_frac_rest[OF f] lex_exp_rest[OF e] l1 show ?thesis by simp
qed

text \<open>
  The tokens of a text, or \<open>None\<close> when some byte starts no token. White space between
  tokens is a space, a tab, a carriage return or a line feed.
\<close>

definition isWhitespace :: "char \<Rightarrow> bool" where
  "isWhitespace c \<longleftrightarrow> c = CHR 0x20 \<or> c = CHR 0x09 \<or> c = CHR 0x0D \<or> c = CHR 0x0A"

definition push :: "token \<Rightarrow> token list option \<Rightarrow> token list option" where
  "push t r = map_option (Cons t) r"

function tokenize :: "string \<Rightarrow> token list option" where
  "tokenize [] = Some []"
| "tokenize (c # cs) =
     (if isWhitespace c then tokenize cs
      else if c = CHR ''{'' then push TBeginObject (tokenize cs)
      else if c = CHR ''}'' then push TEndObject (tokenize cs)
      else if c = CHR ''['' then push TBeginArray (tokenize cs)
      else if c = CHR '']'' then push TEndArray (tokenize cs)
      else if c = CHR '':'' then push TColon (tokenize cs)
      else if c = CHR '','' then push TComma (tokenize cs)
      else if c = CHR 0x22 then
        (case lex_string cs of
           None \<Rightarrow> None
         | Some (str, rest) \<Rightarrow> push (TString str) (tokenize rest))
      else if c = CHR ''-'' \<or> isDigit c then
        (case lex_number (c # cs) of
           None \<Rightarrow> None
         | Some (lit, rest) \<Rightarrow> push (TNumber lit) (tokenize rest))
      else if prefix ''true'' (c # cs) then push TTrue (tokenize (drop 3 cs))
      else if prefix ''false'' (c # cs) then push TFalse (tokenize (drop 4 cs))
      else if prefix ''null'' (c # cs) then push TNull (tokenize (drop 3 cs))
      else None)"
  by pat_completeness auto
termination
proof (relation "measure length", goal_cases)
  case 1
  show ?case by simp
next
  case (9 c cs x2 str rest)
  then show ?case using lex_string_rest [of cs str rest] by simp
next
  case (10 c cs x2 lit rest)
  then show ?case using lex_number_rest [of "c # cs" lit rest] by simp
qed auto

declare tokenize.simps [simp del] lex_string.simps [simp del]

text \<open>
  The grammar is recognised the way the library's scanner does it, one token at a time with
  a stack of the arrays and objects that are open, which also holds what they contain so
  far (newest first). An object keeps its members in the order of the text, duplicates
  included. The library refuses to open more than 10000 nested arrays and objects.
\<close>

datatype frame = InArray "json list" | InObject "(string \<times> json) list" string

datatype expect =
    Value | ValueOrEnd | KeyOrEnd | Key | Colon | CommaOrEnd | Finished json

definition maxNestingDepth :: int where
  "maxNestingDepth = 10000"

fun close_value :: "json \<Rightarrow> frame list \<Rightarrow> expect \<times> frame list" where
  "close_value v [] = (Finished v, [])"
| "close_value v (InArray es # st) = (CommaOrEnd, InArray (v # es) # st)"
| "close_value v (InObject kvs k # st) = (CommaOrEnd, InObject ((k, v) # kvs) k # st)"

definition open_value :: "expect \<Rightarrow> frame \<Rightarrow> frame list \<Rightarrow> (expect \<times> frame list) option" where
  "open_value e f st =
     (if int (length st) < maxNestingDepth then Some (e, f # st) else None)"

fun begin_value :: "token \<Rightarrow> frame list \<Rightarrow> (expect \<times> frame list) option" where
  "begin_value TBeginObject st = open_value KeyOrEnd (InObject [] []) st"
| "begin_value TBeginArray st = open_value ValueOrEnd (InArray []) st"
| "begin_value (TString s) st = Some (close_value (JString s) st)"
| "begin_value (TNumber n) st = Some (close_value (JNumber n) st)"
| "begin_value TTrue st = Some (close_value (JBool True) st)"
| "begin_value TFalse st = Some (close_value (JBool False) st)"
| "begin_value TNull st = Some (close_value JNull st)"
| "begin_value _ st = None"

fun end_array :: "frame list \<Rightarrow> (expect \<times> frame list) option" where
  "end_array (InArray es # st) = Some (close_value (JArray (rev es)) st)"
| "end_array _ = None"

fun end_object :: "frame list \<Rightarrow> (expect \<times> frame list) option" where
  "end_object (InObject kvs k # st) = Some (close_value (JObject (rev kvs)) st)"
| "end_object _ = None"

fun object_key :: "token \<Rightarrow> frame list \<Rightarrow> (expect \<times> frame list) option" where
  "object_key (TString k) (InObject kvs _ # st) = Some (Colon, InObject kvs k # st)"
| "object_key _ _ = None"

fun step :: "token \<Rightarrow> expect \<times> frame list \<Rightarrow> (expect \<times> frame list) option" where
  "step t (Value, st) = begin_value t st"
| "step t (ValueOrEnd, st) = (if t = TEndArray then end_array st else begin_value t st)"
| "step t (KeyOrEnd, st) = (if t = TEndObject then end_object st else object_key t st)"
| "step t (Key, st) = object_key t st"
| "step t (Colon, st) = (if t = TColon then Some (Value, st) else None)"
| "step t (CommaOrEnd, st) =
     (case st of
        [] \<Rightarrow> None
      | InArray _ # _ \<Rightarrow>
          if t = TComma then Some (Value, st) else if t = TEndArray then end_array st else None
      | InObject _ _ # _ \<Rightarrow>
          if t = TComma then Some (Key, st) else if t = TEndObject then end_object st else None)"
| "step t (Finished v, st) = None"

fun run :: "token list \<Rightarrow> expect \<times> frame list \<Rightarrow> json option" where
  "run [] (Finished v, st) = Some v"
| "run [] _ = None"
| "run (t # ts) s = (case step t s of None \<Rightarrow> None | Some s' \<Rightarrow> run ts s')"

definition parse_json :: "string \<Rightarrow> json option" where
  "parse_json data = (case tokenize data of None \<Rightarrow> None | Some ts \<Rightarrow> run ts (Value, []))"

subsection \<open>Storing into Go values\<close>

text \<open>
  A key of a JSON object selects the struct field whose name it equals, or else the field
  whose name it equals when case is ignored. Ignoring case follows Unicode simple case
  folding, under which the only characters outside ASCII that fold to an ASCII letter are
  U+017F (to \<open>s\<close>) and U+212A (to \<open>k\<close>). A key that selects no field is skipped
  together with its value. \<open>equalFold name key\<close> takes an ASCII field name.
\<close>

definition toUpper :: "char \<Rightarrow> char" where
  "toUpper c = (if between c 0x61 0x7A then char_of (byte c - 0x20) else c)"

fun equalFold :: "string \<Rightarrow> string \<Rightarrow> bool" where
  "equalFold [] key \<longleftrightarrow> key = []"
| "equalFold (n # ns) key \<longleftrightarrow>
     (case key of
        [] \<Rightarrow> False
      | k # ks \<Rightarrow>
          if byte k < 0x80 then toUpper k = toUpper n \<and> equalFold ns ks
          else if toUpper n = CHR ''S'' then
            prefix [CHR 0xC5, CHR 0xBF] key \<and> equalFold ns (drop 2 key)
          else if toUpper n = CHR ''K'' then
            prefix [CHR 0xE2, CHR 0x84, CHR 0xAA] key \<and> equalFold ns (drop 3 key)
          else False)"

definition find_field :: "string list \<Rightarrow> string \<Rightarrow> string option" where
  "find_field names key =
     (case find (\<lambda>n. n = key) names of
        Some n \<Rightarrow> Some n
      | None \<Rightarrow> find (\<lambda>n. equalFold n key) names)"

text \<open>
  Each function below stores a JSON value into a Go value and returns the new Go value and
  whether a type error was recorded. \<^verbatim>\<open>null\<close> leaves a string or a struct as it is and
  sets a map or a slice to \<^verbatim>\<open>nil\<close>. Later members of an object are stored over what
  earlier ones left: a string is replaced, a map gains the new keys, a struct is stored into
  field by field.

  An array is stored into a slice element by element, each into the element that the
  slice's backing array already holds at that position (a zero value where it holds none);
  then the slice is cut to the length of the array, and an empty array gives a fresh empty
  slice. So a slice is kept as a pair: the elements within its length, which the program
  sees, and the elements left behind them in the backing array by an earlier, longer array
  under a repeated key.
\<close>

type_synonym 'a slice = "'a list \<times> 'a list"

fun store_string :: "json \<Rightarrow> string \<Rightarrow> string \<times> bool" where
  "store_string (JString s) old = (s, False)"
| "store_string JNull old = (old, False)"
| "store_string _ old = (old, True)"

fun store_members ::
  "(string \<times> json \<Rightarrow> 's \<Rightarrow> 's \<times> bool) \<Rightarrow> (string \<times> json) list \<Rightarrow> 's \<Rightarrow> 's \<times> bool" where
  "store_members f [] dst = (dst, False)"
| "store_members f (kv # kvs) dst =
     (case f kv dst of
        (dst', bad) \<Rightarrow>
          (case store_members f kvs dst' of (dst'', bad') \<Rightarrow> (dst'', bad \<or> bad')))"

fun store_elements ::
  "(json \<Rightarrow> 'a \<Rightarrow> 'a \<times> bool) \<Rightarrow> 'a \<Rightarrow> json list \<Rightarrow> 'a list \<Rightarrow> 'a list \<times> bool" where
  "store_elements f zero [] old = ([], False)"
| "store_elements f zero (e # es) old =
     (case f e (case old of [] \<Rightarrow> zero | x # _ \<Rightarrow> x) of
        (y, bad) \<Rightarrow>
          (case store_elements f zero es (tl old) of (ys, bad') \<Rightarrow> (y # ys, bad \<or> bad')))"

fun store_slice ::
  "(json \<Rightarrow> 'a \<Rightarrow> 'a \<times> bool) \<Rightarrow> 'a \<Rightarrow> json \<Rightarrow> 'a slice \<Rightarrow> 'a slice \<times> bool" where
  "store_slice f zero (JArray es) (vis, spare) =
     (if es = [] then (([], []), False)
      else case store_elements f zero es (vis @ spare) of
             (xs, bad) \<Rightarrow> ((xs, drop (length es) (vis @ spare)), bad))"
| "store_slice f zero JNull sl = (([], []), False)"
| "store_slice f zero _ sl = (sl, True)"

definition store_map_entry ::
  "string \<times> json \<Rightarrow> (string \<rightharpoonup> string) \<Rightarrow> (string \<rightharpoonup> string) \<times> bool" where
  "store_map_entry kv m =
     (case store_string (snd kv) [] of (s, bad) \<Rightarrow> (m(fst kv \<mapsto> s), bad))"

fun store_map :: "json \<Rightarrow> (string \<rightharpoonup> string) \<Rightarrow> (string \<rightharpoonup> string) \<times> bool" where
  "store_map (JObject kvs) m = store_members store_map_entry kvs m"
| "store_map JNull m = (Map.empty, False)"
| "store_map _ m = (m, True)"

definition store_unogsResponse_field ::
  "string \<times> json \<Rightarrow> string \<times> (string \<rightharpoonup> string) slice
     \<Rightarrow> (string \<times> (string \<rightharpoonup> string) slice) \<times> bool" where
  "store_unogsResponse_field kv dst =
     (case find_field [''COUNT'', ''ITEMS''] (fst kv) of
        None \<Rightarrow> (dst, False)
      | Some name \<Rightarrow>
          if name = ''COUNT'' then
            (case store_string (snd kv) (fst dst) of (c, bad) \<Rightarrow> ((c, snd dst), bad))
          else
            (case store_slice store_map Map.empty (snd kv) (snd dst) of
               (sl, bad) \<Rightarrow> ((fst dst, sl), bad)))"

fun store_unogsResponse ::
  "json \<Rightarrow> string \<times> (string \<rightharpoonup> string) slice
     \<Rightarrow> (string \<times> (string \<rightharpoonup> string) slice) \<times> bool" where
  "store_unogsResponse (JObject kvs) dst = store_members store_unogsResponse_field kvs dst"
| "store_unogsResponse JNull dst = (dst, False)"
| "store_unogsResponse _ dst = (dst, True)"

definition json_Unmarshal_unogsResponse :: "string \<Rightarrow> error + unogsResponse" where
  "json_Unmarshal_unogsResponse data =
     (case parse_json data of
        None \<Rightarrow> Inl SyntaxError
      | Some v \<Rightarrow>
          (case store_unogsResponse v ([], ([], [])) of
             ((c, (items, spare)), bad) \<Rightarrow>
               if bad then Inl UnmarshalTypeError else Inr \<lparr>Count = c, Items = items\<rparr>))"

definition store_netflixCountry_field ::
  "string \<times> json \<Rightarrow> netflixCountry \<Rightarrow> netflixCountry \<times> bool" where
  "store_netflixCountry_field kv dst =
     (case find_field [''ccode''] (fst kv) of
        None \<Rightarrow> (dst, False)
      | Some name \<Rightarrow>
          (case store_string (snd kv) (Code dst) of (c, bad) \<Rightarrow> (dst\<lparr>Code := c\<rparr>, bad)))"

fun store_netflixCountry :: "json \<Rightarrow> netflixCountry \<Rightarrow> netflixCountry \<times> bool" where
  "store_netflixCountry (JObject kvs) dst = store_members store_netflixCountry_field kvs dst"
| "store_netflixCountry JNull dst = (dst, False)"
| "store_netflixCountry _ dst = (dst, True)"

definition store_netflixLookupResult_field ::
  "string \<times> json \<Rightarrow> netflixCountry slice \<Rightarrow> netflixCountry slice \<times> bool" where
  "store_netflixLookupResult_field kv dst =
     (case find_field [''country''] (fst kv) of
        None \<Rightarrow> (dst, False)
      | Some name \<Rightarrow> store_slice store_netflixCountry \<lparr>Code = []\<rparr> (snd kv) dst)"

fun store_netflixLookupResult ::
  "json \<Rightarrow> netflixCountry slice \<Rightarrow> netflixCountry slice \<times> bool" where
  "store_netflixLookupResult (JObject kvs) dst =
     store_members store_netflixLookupResult_field kvs dst"
| "store_netflixLookupResult JNull dst = (dst, False)"
| "store_netflixLookupResult _ dst = (dst, True)"

definition store_netflixLookup_field ::
  "string \<times> json \<Rightarrow> netflixCountry slice \<Rightarrow> netflixCountry slice \<times> bool" where
  "store_netflixLookup_field kv dst =
     (case find_field [''RESULT''] (fst kv) of
        None \<Rightarrow> (dst, False)
      | Some name \<Rightarrow> store_netflixLookupResult (snd kv) dst)"

fun store_netflixLookup ::
  "json \<Rightarrow> netflixCountry slice \<Rightarrow> netflixCountry slice \<times> bool" where
  "store_netflixLookup (JObject kvs) dst = store_members store_netflixLookup_field kvs dst"
| "store_netflixLookup JNull dst = (dst, False)"
| "store_netflixLookup _ dst = (dst, True)"

definition json_Unmarshal_netflixLookup :: "string \<Rightarrow> error + netflixLookup" where
  "json_Unmarshal_netflixLookup data =
     (case parse_json data of
        None \<Rightarrow> Inl SyntaxError
      | Some v \<Rightarrow>
          (case store_netflixLookup v ([], []) of
             ((countries, spare), bad) \<Rightarrow>
               if bad then Inl UnmarshalTypeError
               else Inr \<lparr>Result = \<lparr>Country = countries\<rparr>\<rparr>))"

section \<open>Environments\<close>

text \<open>
  \<open>go_env\<close> completes a URL check and a transport to an environment with the functions
  above for \<^verbatim>\<open>json.Unmarshal\<close>. \<open>replay\<close> is a transport for examples: it answers the
  \<open>n\<close>-th request of a run with the \<open>n\<close>-th entry, a status code and a body, of a
  script, and refuses the connection when the script is used up. \<open>scripted\<close> pairs it with
  a URL check that accepts every URL; the examples use URLs that \<^verbatim>\<open>http.NewRequest\<close>
  accepts.
\<close>

definition go_env ::
  "(string \<Rightarrow> error option) \<Rightarrow> (request list \<Rightarrow> request \<Rightarrow> error + response) \<Rightarrow> env" where
  "go_env ue tr =
     \<lparr>url_error = ue, Do = tr,
      Unmarshal_unogsResponse = json_Unmarshal_unogsResponse,
      Unmarshal_netflixLookup = json_Unmarshal_netflixLookup\<rparr>"

definition replay :: "(int \<times> string) list \<Rightarrow> request list \<Rightarrow> request \<Rightarrow> error + response" where
  "replay script sent req =
     (if length sent < length script
      then (case script ! length sent of
              (code, text) \<Rightarrow> Inr \<lparr>StatusCode = code, Body = Data text EOF\<rparr>)
      else Inl (Fault ''connection refused''))"

definition no_url_error :: "string \<Rightarrow> error option" where
  "no_url_error url = None"

definition scripted :: "(int \<times> string) list \<Rightarrow> env" where
  "scripted script = go_env no_url_error (replay script)"

definition get_request :: "string \<Rightarrow> string \<Rightarrow> request" where
  "get_request url apiKey =
     \<lparr>Method = ''GET'', URL = url, Header = [(''X-Rapidapi-Key'', apiKey)]\<rparr>"

text \<open>
  \<open>with_status code env\<close> is \<open>env\<close> with the status code of every response replaced by
  \<open>code\<close>.
\<close>

definition with_status :: "int \<Rightarrow> env \<Rightarrow> env" where
  "with_status code env =
     env\<lparr>Do := \<lambda>sent req.
            map_sum (\<lambda>err. err) (\<lambda>resp. resp\<lparr>StatusCode := code\<rparr>) (Do env sent req)\<rparr>"

text \<open>
  \<open>lacks_fields names v\<close>: the JSON value \<open>v\<close> is \<^verbatim>\<open>null\<close>, or an object none of whose
  keys selects a field of \<open>names\<close>. \<open>not_a_struct v\<close>: \<open>v\<close> is an array, a string, a
  number or a boolean.
\<close>

fun lacks_fields :: "string list \<Rightarrow> json \<Rightarrow> bool" where
  "lacks_fields names JNull = True"
| "lacks_fields names (JObject kvs) = list_all (\<lambda>kv. find_field names (fst kv) = None) kvs"
| "lacks_fields names _ = False"

fun not_a_struct :: "json \<Rightarrow> bool" where
  "not_a_struct JNull = False"
| "not_a_struct (JObject kvs) = False"
| "not_a_struct _ = True"

text \<open>
  Which JSON values \<^verbatim>\<open>json.Unmarshal\<close> can store into the two Go types, said without the
  storing. A string takes a JSON string; a \<^verbatim>\<open>map[string]string\<close> takes an object whose
  members all fit a string; a slice takes an array whose elements all fit the element type;
  a struct takes an object in which the value of every member that selects a field fits
  that field, whatever the other members hold. Each of them also takes \<^verbatim>\<open>null\<close>. So
  \<open>fits_unogsResponse\<close> is fitting \<^verbatim>\<open>unogsResponse\<close> and \<open>fits_netflixLookup\<close> is fitting
  \<^verbatim>\<open>netflixLookup\<close>.
\<close>

fun fits_string :: "json \<Rightarrow> bool" where
  "fits_string (JString s) = True"
| "fits_string JNull = True"
| "fits_string _ = False"

fun fits_map :: "json \<Rightarrow> bool" where
  "fits_map (JObject kvs) = list_all (\<lambda>kv. fits_string (snd kv)) kvs"
| "fits_map JNull = True"
| "fits_map _ = False"

fun fits_slice :: "(json \<Rightarrow> bool) \<Rightarrow> json \<Rightarrow> bool" where
  "fits_slice fits (JArray es) = list_all fits es"
| "fits_slice fits JNull = True"
| "fits_slice fits _ = False"

definition fits_unogsResponse_member :: "string \<times> json \<Rightarrow> bool" where
  "fits_unogsResponse_member kv =
     (case find_field [''COUNT'', ''ITEMS''] (fst kv) of
        None \<Rightarrow> True
      | Some name \<Rightarrow>
          if name = ''COUNT'' then fits_string (snd kv) else fits_slice fits_map (snd kv))"

fun fits_unogsResponse :: "json \<Rightarrow> bool" where
  "fits_unogsResponse (JObject kvs) = list_all fits_unogsResponse_member kvs"
| "fits_unogsResponse JNull = True"
| "fits_unogsResponse _ = False"

definition fits_netflixCountry_member :: "string \<times> json \<Rightarrow> bool" where
  "fits_netflixCountry_member kv =
     (case find_field [''ccode''] (fst kv) of
        None \<Rightarrow> True
      | Some name \<Rightarrow> fits_string (snd kv))"

fun fits_netflixCountry :: "json \<Rightarrow> bool" where
  "fits_netflixCountry (JObject kvs) = list_all fits_netflixCountry_member kvs"
| "fits_netflixCountry JNull = True"
| "fits_netflixCountry _ = False"

definition fits_netflixLookupResult_member :: "string \<times> json \<Rightarrow> bool" where
  "fits_netflixLookupResult_member kv =
     (case find_field [''country''] (fst kv) of
        None \<Rightarrow> True
      | Some name \<Rightarrow> fits_slice fits_netflixCountry (snd kv))"

fun fits_netflixLookupResult :: "json \<Rightarrow> bool" where
  "fits_netflixLookupResult (JObject kvs) = list_all fits_netflixLookupResult_member kvs"
| "fits_netflixLookupResult JNull = True"
| "fits_netflixLookupResult _ = False"

definition fits_netflixLookup_member :: "string \<times> json \<Rightarrow> bool" where
  "fits_netflixLookup_member kv =
     (case find_field [''RESULT''] (fst kv) of
        None \<Rightarrow> True
      | Some name \<Rightarrow> fits_netflixLookupResult (snd kv))"

fun fits_netflixLookup :: "json \<Rightarrow> bool" where
  "fits_netflixLookup (JObject kvs) = list_all fits_netflixLookup_member kvs"
| "fits_netflixLookup JNull = True"
| "fits_netflixLookup _ = False"


text \<open>Bodies for the examples.\<close>

definition search_body :: string where
  "search_body = ''{\"COUNT\":\"2\",\"ITEMS\":[{\"title\":\"Inception\",\"netflixid\":\"123\"},{\"title\":\"Other\",\"netflixid\":\"456\"}]}''"

definition empty_body :: string where
  "empty_body = ''{\"COUNT\":\"0\",\"ITEMS\":[]}''"

definition unidentified_body :: string where
  "unidentified_body = ''{\"COUNT\":\"1\",\"ITEMS\":[{\"title\":\"Inception\"}]}''"

definition typed_body :: string where
  "typed_body = ''{\"COUNT\":\"1\",\"ITEMS\":[{\"title\":\"Inception\",\"netflixid\":70131314}]}''"

definition detail_us :: string where
  "detail_us = ''{\"RESULT\":{\"country\":[{\"ccode\":\"ca\"},{\"ccode\":\"us\"}]}}''"

definition detail_ca :: string where
  "detail_ca = ''{\"RESULT\":{\"country\":[{\"ccode\":\"ca\"}]}}''"

definition gateway_page :: string where
  "gateway_page = ''<html>502 Bad Gateway</html>''"

definition count_number_body :: string where
  "count_number_body = ''{\"COUNT\":3}''"

definition count_string_body :: string where
  "count_string_body = ''{\"COUNT\":\"3\"}''"

definition ccode_number_body :: string where
  "ccode_number_body = ''{\"RESULT\":{\"country\":[{\"ccode\":1}]}}''"

definition result_empty_body :: string where
  "result_empty_body = ''{\"RESULT\":{}}''"



section \<open>Properties of the normalization\<close>

lemma MatchString_iff:
  "MatchString s \<longleftrightarrow>
     (\<exists>p d1 d2 d3 d4. isDigit d1 \<and> isDigit d2 \<and> isDigit d3 \<and> isDigit d4 \<and>
        s = p @ [CHR ''('', d1, d2, d3, d4, CHR '')''])"
proof
  assume m: "MatchString s"
  then have len: "6 \<le> length s" and g: "year_group (drop (length s - 6) s)"
    by (simp_all add: MatchString_def)
  from g obtain a d1 d2 d3 d4 b where d: "drop (length s - 6) s = [a, d1, d2, d3, d4, b]"
    by (cases "drop (length s - 6) s" rule: year_group.cases) simp_all
  with g have "a = CHR ''(''" "isDigit d1" "isDigit d2" "isDigit d3" "isDigit d4" "b = CHR '')''"
    by simp_all
  moreover have "s = take (length s - 6) s @ drop (length s - 6) s" by simp
  ultimately show "\<exists>p d1 d2 d3 d4. isDigit d1 \<and> isDigit d2 \<and> isDigit d3 \<and> isDigit d4 \<and>
        s = p @ [CHR ''('', d1, d2, d3, d4, CHR '')'']"
    using d by metis
next
  assume "\<exists>p d1 d2 d3 d4. isDigit d1 \<and> isDigit d2 \<and> isDigit d3 \<and> isDigit d4 \<and>
        s = p @ [CHR ''('', d1, d2, d3, d4, CHR '')'']"
  then show "MatchString s" by (auto simp: MatchString_def)
qed

lemma ReplaceAllString_year:
  assumes "isDigit d1" "isDigit d2" "isDigit d3" "isDigit d4"
  shows "ReplaceAllString (p @ [CHR ''('', d1, d2, d3, d4, CHR '')'']) = p"
  using assms by (simp add: ReplaceAllString_def MatchString_def)

lemma leading_space_prefix:
  assumes "leading_space s = None" and "prefix t s"
  shows "leading_space t = None"
proof (rule ccontr)
  assume "leading_space t \<noteq> None"
  then obtain w where "leading_space t = Some w" by auto
  then have "w \<in> set space_runes" "prefix w t"
    using leading_space_Some by blast+
  with assms(2) have "w \<in> set space_runes" "prefix w s" by auto
  then have "leading_space s \<noteq> None"
    by (auto simp: leading_space_def find_None_iff)
  with assms(1) show False by simp
qed

lemma TrimLeft_no_leading: "leading_space (TrimLeft s) = None"
proof (induction s rule: TrimLeft.induct)
  case (1 s)
  then show ?case by (subst TrimLeft.simps) (simp split: option.splits)
qed

lemma TrimRight_no_trailing: "trailing_space (TrimRight s) = None"
proof (induction s rule: TrimRight.induct)
  case (1 s)
  then show ?case by (subst TrimRight.simps) (simp split: option.splits)
qed

lemma TrimLeft_decomp:
  "\<exists>ls. set ls \<subseteq> set space_runes \<and> s = concat ls @ TrimLeft s"
proof (induction s rule: TrimLeft.induct)
  case (1 s)
  show ?case
  proof (cases "leading_space s")
    case None
    then have "TrimLeft s = s" by (subst TrimLeft.simps) simp
    then have "set [] \<subseteq> set space_runes \<and> s = concat [] @ TrimLeft s" by simp
    then show ?thesis by blast
  next
    case (Some w)
    then have w: "w \<in> set space_runes" "prefix w s" using leading_space_Some by blast+
    from 1 Some obtain ls where ls: "set ls \<subseteq> set space_runes"
      "drop (length w) s = concat ls @ TrimLeft (drop (length w) s)" by blast
    have step: "TrimLeft s = TrimLeft (drop (length w) s)"
      using Some by (subst TrimLeft.simps) simp
    from w(2) have "s = w @ drop (length w) s" by (auto simp: prefix_def)
    with ls(2) step have "s = concat (w # ls) @ TrimLeft s" by simp
    moreover have "set (w # ls) \<subseteq> set space_runes" using w(1) ls(1) by simp
    ultimately show ?thesis by blast
  qed
qed

lemma TrimRight_decomp:
  "\<exists>rs. set rs \<subseteq> set space_runes \<and> s = TrimRight s @ concat rs"
proof (induction s rule: TrimRight.induct)
  case (1 s)
  show ?case
  proof (cases "trailing_space s")
    case None
    then have "TrimRight s = s" by (subst TrimRight.simps) simp
    then have "set [] \<subseteq> set space_runes \<and> s = TrimRight s @ concat []" by simp
    then show ?thesis by blast
  next
    case (Some w)
    then have w: "w \<in> set space_runes" "suffix w s" using trailing_space_Some by blast+
    let ?t = "take (length s - length w) s"
    from 1 Some obtain rs where rs: "set rs \<subseteq> set space_runes"
      "?t = TrimRight ?t @ concat rs" by blast
    have step: "TrimRight s = TrimRight ?t"
      using Some by (subst TrimRight.simps) simp
    from w(2) have "s = ?t @ w" by (auto simp: suffix_def)
    with rs(2) step have "s = TrimRight s @ concat (rs @ [w])"
      by (metis append.assoc append_Nil2 concat.simps concat_append)
    moreover have "set (rs @ [w]) \<subseteq> set space_runes" using w(1) rs(1) by simp
    ultimately show ?thesis by blast
  qed
qed

lemma TrimSpace_decomp:
  "\<exists>ls rs. set ls \<subseteq> set space_runes \<and> set rs \<subseteq> set space_runes \<and>
     s = concat ls @ TrimSpace s @ concat rs"
proof -
  obtain ls where ls: "set ls \<subseteq> set space_runes" "s = concat ls @ TrimLeft s"
    using TrimLeft_decomp by blast
  obtain rs where rs: "set rs \<subseteq> set space_runes"
    "TrimLeft s = TrimRight (TrimLeft s) @ concat rs"
    using TrimRight_decomp by blast
  from ls(2) rs(2) have "s = concat ls @ TrimSpace s @ concat rs"
    by (simp add: TrimSpace_def)
  with ls(1) rs(1) show ?thesis by blast
qed

lemma TrimSpace_trimmed:
  "leading_space (TrimSpace s) = None \<and> trailing_space (TrimSpace s) = None"
proof -
  obtain rs where "TrimLeft s = TrimRight (TrimLeft s) @ concat rs"
    using TrimRight_decomp by blast
  then have "prefix (TrimRight (TrimLeft s)) (TrimLeft s)" by (metis prefixI)
  then show ?thesis
    unfolding TrimSpace_def
    using TrimLeft_no_leading TrimRight_no_trailing leading_space_prefix by blast
qed

lemma TrimSpace_fixed:
  "leading_space s = None \<Longrightarrow> trailing_space s = None \<Longrightarrow> TrimSpace s = s"
  by (simp add: TrimSpace_def TrimLeft.simps TrimRight.simps)

lemma TrimSpace_set: "set (TrimSpace s) \<subseteq> set s"
proof -
  obtain ls rs where "s = concat ls @ TrimSpace s @ concat rs"
    using TrimSpace_decomp by blast
  then have "set s = set (concat ls) \<union> set (TrimSpace s) \<union> set (concat rs)"
    by (metis set_append sup_assoc)
  then show ?thesis by blast
qed

lemma normalize_no_apostrophe: "CHR 0x27 \<notin> set (normalize t)"
  unfolding normalize_def Replace_apostrophe_def using TrimSpace_set by fastforce

lemma normalize_examples:
  "normalize [] = []"
  "normalize ''Inception (2010)'' = ''Inception''"
  "normalize ''Schindler's List'' = ''Schindlers List''"
  "normalize ''Plain Title'' = ''Plain Title''"
  by code_simp+

text \<open>
  Claim C3. The normalization deletes a parenthesized group of exactly four digits that
  ends the string, deletes every apostrophe, and trims white space from both ends: with a
  year group at the end the result is the trimmed, apostrophe-free rest, without one it is
  the trimmed, apostrophe-free input, where trimming removes nothing but encoded spaces and
  leaves no space at either end. It is a total function with no failure, and it maps the
  empty string, "Inception (2010)", "Schindler's List" and "Plain Title" to the empty
  string, "Inception", "Schindlers List" and "Plain Title".
\<close>

theorem normalize_contract:
  "normalize [] = []
   \<and> normalize ''Inception (2010)'' = ''Inception''
   \<and> normalize ''Schindler's List'' = ''Schindlers List''
   \<and> normalize ''Plain Title'' = ''Plain Title''
   \<and> (isDigit d1 \<and> isDigit d2 \<and> isDigit d3 \<and> isDigit d4 \<longrightarrow>
        normalize (p @ [CHR ''('', d1, d2, d3, d4, CHR '')'']) =
          TrimSpace (filter (\<lambda>c. c \<noteq> CHR 0x27) p))
   \<and> ((\<nexists>q e1 e2 e3 e4. isDigit e1 \<and> isDigit e2 \<and> isDigit e3 \<and> isDigit e4 \<and>
          s = q @ [CHR ''('', e1, e2, e3, e4, CHR '')'']) \<longrightarrow>
        normalize s = TrimSpace (filter (\<lambda>c. c \<noteq> CHR 0x27) s))
   \<and> (\<exists>ls rs. set ls \<subseteq> set space_runes \<and> set rs \<subseteq> set space_runes \<and>
          t = concat ls @ TrimSpace t @ concat rs)
   \<and> leading_space (TrimSpace t) = None \<and> trailing_space (TrimSpace t) = None
   \<and> CHR 0x27 \<notin> set (normalize s)"
proof -
  have year: "isDigit d1 \<and> isDigit d2 \<and> isDigit d3 \<and> isDigit d4 \<longrightarrow>
        normalize (p @ [CHR ''('', d1, d2, d3, d4, CHR '')'']) =
          TrimSpace (filter (\<lambda>c. c \<noteq> CHR 0x27) p)"
    by (simp add: normalize_def Replace_apostrophe_def ReplaceAllString_year)
  have plain: "(\<nexists>q e1 e2 e3 e4. isDigit e1 \<and> isDigit e2 \<and> isDigit e3 \<and> isDigit e4 \<and>
          s = q @ [CHR ''('', e1, e2, e3, e4, CHR '')'']) \<longrightarrow>
        normalize s = TrimSpace (filter (\<lambda>c. c \<noteq> CHR 0x27) s)"
  proof
    assume "\<nexists>q e1 e2 e3 e4. isDigit e1 \<and> isDigit e2 \<and> isDigit e3 \<and> isDigit e4 \<and>
          s = q @ [CHR ''('', e1, e2, e3, e4, CHR '')'']"
    then have "\<not> MatchString s" by (simp add: MatchString_iff)
    then show "normalize s = TrimSpace (filter (\<lambda>c. c \<noteq> CHR 0x27) s)"
      by (simp add: normalize_def Replace_apostrophe_def ReplaceAllString_def)
  qed
  show ?thesis
    using normalize_examples year plain TrimSpace_decomp [of t] TrimSpace_trimmed [of t]
      normalize_no_apostrophe [of s]
    by blast
qed

theorem normalize_contract_witness:
  "normalize (''Heat '' @ ''(1995)'') = TrimSpace ''Heat ''
   \<and> normalize ''O'Brother'' = TrimSpace ''OBrother''"
proof -
  have digits: "isDigit CHR ''1'' \<and> isDigit CHR ''9'' \<and> isDigit CHR ''9'' \<and> isDigit CHR ''5''"
    by (simp add: isDigit_def)
  have none: "\<nexists>q e1 e2 e3 e4. isDigit e1 \<and> isDigit e2 \<and> isDigit e3 \<and> isDigit e4 \<and>
          ''O'Brother'' = q @ [CHR ''('', e1, e2, e3, e4, CHR '')'']"
    by (auto dest!: arg_cong [where f = last])
  show ?thesis
    using digits none
      normalize_contract [of "CHR ''1''" "CHR ''9''" "CHR ''9''" "CHR ''5''" "''Heat ''"
        "''O'Brother''" "[]"]
    by simp
qed

text \<open>
  Claim C2, as stated, fails: a year group that the first pass leaves in place because
  white space follows it is at the very end after trimming, and a second pass deletes it.
\<close>

theorem normalize_not_idempotent:
  "normalize (normalize ''Movie (1999) '') \<noteq> normalize ''Movie (1999) ''"
  by code_simp

lemma TrimSpace_length: "length (TrimSpace s) \<le> length s"
proof -
  obtain ls rs where "s = concat ls @ TrimSpace s @ concat rs"
    using TrimSpace_decomp by blast
  then have "length s = length (concat ls) + length (TrimSpace s) + length (concat rs)"
    by (metis add.assoc length_append)
  then show ?thesis by simp
qed

lemma normalize_shorter:
  assumes "MatchString s"
  shows "length (normalize s) < length s"
proof -
  from assms have len: "6 \<le> length s" by (simp add: MatchString_def)
  have "length (normalize s) \<le> length (Replace_apostrophe (ReplaceAllString s))"
    unfolding normalize_def by (rule TrimSpace_length)
  also have "\<dots> \<le> length (ReplaceAllString s)"
    by (simp add: Replace_apostrophe_def)
  also have "\<dots> = length s - 6"
    using assms by (simp add: ReplaceAllString_def)
  finally show ?thesis using len by simp
qed

text \<open>
  Claim C2, amended. Normalizing twice gives the same as normalizing once exactly for the
  titles whose normalized form does not end in a parenthesized group of four digits.
\<close>

theorem normalize_idempotent_iff_no_year:
  "normalize (normalize x) = normalize x \<longleftrightarrow>
     \<not> (\<exists>p d1 d2 d3 d4. isDigit d1 \<and> isDigit d2 \<and> isDigit d3 \<and> isDigit d4 \<and>
           normalize x = p @ [CHR ''('', d1, d2, d3, d4, CHR '')''])"
proof -
  let ?y = "normalize x"
  have "normalize ?y = ?y" if "\<not> MatchString ?y"
  proof -
    from that have "ReplaceAllString ?y = ?y" by (simp add: ReplaceAllString_def)
    moreover have "Replace_apostrophe ?y = ?y"
      using normalize_no_apostrophe [of x]
      by (auto simp: Replace_apostrophe_def filter_id_conv)
    moreover have "TrimSpace ?y = ?y"
      using TrimSpace_trimmed TrimSpace_fixed by (simp add: normalize_def)
    ultimately show ?thesis by (simp add: normalize_def [of "normalize x"])
  qed
  moreover have "normalize ?y \<noteq> ?y" if "MatchString ?y"
    using normalize_shorter [OF that] by auto
  ultimately have "normalize ?y = ?y \<longleftrightarrow> \<not> MatchString ?y" by blast
  then show ?thesis by (simp add: MatchString_iff)
qed

theorem normalize_idempotent_iff_no_year_witness:
  "normalize (normalize '' Schindler's List (1993)'') = normalize '' Schindler's List (1993)''"
proof -
  have eq: "normalize '' Schindler's List (1993)'' = ''Schindlers List''" by code_simp
  have "\<not> (\<exists>p d1 d2 d3 d4. isDigit d1 \<and> isDigit d2 \<and> isDigit d3 \<and> isDigit d4 \<and>
          normalize '' Schindler's List (1993)'' = p @ [CHR ''('', d1, d2, d3, d4, CHR '')''])"
    unfolding eq by (auto dest!: arg_cong [where f = last])
  then show ?thesis using normalize_idempotent_iff_no_year by blast
qed


section \<open>Properties of the lookup client\<close>

lemma Compile_succeeds [simp]: "Compile = None"
  by (simp add: Compile_def)

lemma callUnogs_sent:
  "callUnogs env url apiKey sent = (r, sent') \<Longrightarrow>
     sent' = sent \<or> (\<exists>req. sent' = sent @ [req] \<and> URL req = url)"
  by (auto simp: callUnogs_def NewRequest_def Header_Add_def Let_def
      split: sum.splits option.splits)

lemma callUnogs_sent_ok:
  "callUnogs env url apiKey sent = (Inr bytes, sent') \<Longrightarrow>
     \<exists>req. sent' = sent @ [req] \<and> URL req = url"
  by (auto simp: callUnogs_def NewRequest_def Header_Add_def Let_def
      split: sum.splits option.splits)

lemma canonical_api_key: "CanonicalMIMEHeaderKey ''X-RapidAPI-Key'' = ''X-Rapidapi-Key''"
  by code_simp

lemma scripted_first_call:
  "callUnogs (scripted ((code, text) # rest)) url apiKey [] =
     (Inr text, [get_request url apiKey])"
  by (simp add: callUnogs_def NewRequest_def Header_Add_def scripted_def go_env_def replay_def
      no_url_error_def get_request_def canonical_api_key)

lemma scripted_no_answer:
  "callUnogs (scripted []) url apiKey [] =
     (Inl (Fault ''connection refused''), [get_request url apiKey])"
  by (simp add: callUnogs_def NewRequest_def Header_Add_def scripted_def go_env_def replay_def
      no_url_error_def get_request_def canonical_api_key)

lemma scripted_decoders:
  "Unmarshal_unogsResponse (scripted script) = json_Unmarshal_unogsResponse"
  "Unmarshal_netflixLookup (scripted script) = json_Unmarshal_netflixLookup"
  by (simp_all add: scripted_def go_env_def)

text \<open>
  Claim C8. \<^verbatim>\<open>callUnogs\<close> returns an error exactly when building the request, the
  transport call or reading the response body fails. When all three succeed it returns the
  bytes read from the body and has sent the one request. It never looks at the status code:
  replacing the status code of every response by any other leaves its result unchanged.
\<close>

theorem callUnogs_outcome:
  "(isl (fst (callUnogs env url apiKey sent)) \<longleftrightarrow>
      isl (NewRequest env ''GET'' url)
      \<or> (\<exists>req. NewRequest env ''GET'' url = Inr req
            \<and> isl (Do env sent (Header_Add ''X-RapidAPI-Key'' apiKey req)))
      \<or> (\<exists>req resp. NewRequest env ''GET'' url = Inr req
            \<and> Do env sent (Header_Add ''X-RapidAPI-Key'' apiKey req) = Inr resp
            \<and> isl (ReadAll (Body resp))))
   \<and> (NewRequest env ''GET'' url = Inr req
        \<and> Do env sent (Header_Add ''X-RapidAPI-Key'' apiKey req) = Inr resp
        \<and> ReadAll (Body resp) = Inr bytes
      \<longrightarrow> callUnogs env url apiKey sent
            = (Inr bytes, sent @ [Header_Add ''X-RapidAPI-Key'' apiKey req]))
   \<and> fst (callUnogs (with_status code env) url apiKey sent)
       = fst (callUnogs env url apiKey sent)"
  by (auto simp: callUnogs_def NewRequest_def with_status_def Let_def
      split: sum.splits option.splits)

theorem callUnogs_outcome_witness:
  "callUnogs (scripted [(404, ''Not Found'')]) ''https://unogs.test/'' ''key'' [] =
     (Inr ''Not Found'', [get_request ''https://unogs.test/'' ''key''])"
proof -
  let ?env = "scripted [(404, ''Not Found'')]"
  let ?req = "\<lparr>Method = ''GET'', URL = ''https://unogs.test/'', Header = []\<rparr>"
  let ?resp = "\<lparr>StatusCode = 404, Body = Data ''Not Found'' EOF\<rparr>"
  have new: "NewRequest ?env ''GET'' ''https://unogs.test/'' = Inr ?req"
    by (simp add: NewRequest_def scripted_def go_env_def no_url_error_def)
  have rt: "Do ?env [] (Header_Add ''X-RapidAPI-Key'' ''key'' ?req) = Inr ?resp"
    by (simp add: scripted_def go_env_def replay_def)
  have rd: "ReadAll (Body ?resp) = Inr ''Not Found''"
    by simp
  from callUnogs_outcome [of ?env "''https://unogs.test/''" "''key''" "[]" ?req ?resp
      "''Not Found''"] new rt rd
  have "callUnogs ?env ''https://unogs.test/'' ''key'' [] =
      (Inr ''Not Found'', [] @ [Header_Add ''X-RapidAPI-Key'' ''key'' ?req])"
    by blast
  then show ?thesis by (simp add: Header_Add_def get_request_def canonical_api_key)
qed


section \<open>Properties of the identifier resolver\<close>

lemma first_match_find:
  "first_match title items =
     (case find (\<lambda>item. index item ''title'' = title) items of
        None \<Rightarrow> [] | Some item \<Rightarrow> index item ''netflixid'')"
  by (induction items) simp_all

lemma first_match_split:
  assumes "\<forall>p \<in> set pre. index p ''title'' \<noteq> title" and "index item ''title'' = title"
  shows "first_match title (pre @ item # post) = index item ''netflixid''"
  using assms by (induction pre) simp_all

lemma first_match_none:
  "\<forall>item \<in> set items. index item ''title'' \<noteq> title \<Longrightarrow> first_match title items = []"
  by (induction items) simp_all

lemma first_match_source:
  "first_match title items \<noteq> [] \<Longrightarrow>
     \<exists>item \<in> set items. index item ''title'' = title
        \<and> index item ''netflixid'' = first_match title items"
  by (induction items) (auto split: if_splits)

lemma findNetflixID_sent:
  "findNetflixID env title year apiKey sent = (r, sent') \<Longrightarrow>
     sent' = sent \<or>
     (\<exists>req. sent' = sent @ [req] \<and> URL req = search_url (normalize title) year)"
  by (auto simp: findNetflixID_def Let_def split: prod.splits sum.splits
      dest!: callUnogs_sent)

lemma findNetflixID_sent_ok:
  "findNetflixID env title year apiKey sent = (Inr ident, sent') \<Longrightarrow>
     \<exists>req. sent' = sent @ [req] \<and> URL req = search_url (normalize title) year"
  by (auto simp: findNetflixID_def Let_def split: prod.splits sum.splits
      dest!: callUnogs_sent_ok)

lemma search_body_parsed:
  "parse_json search_body =
     Some (JObject [(''COUNT'', JString ''2''),
       (''ITEMS'',
        JArray [JObject [(''title'', JString ''Inception''), (''netflixid'', JString ''123'')],
                JObject [(''title'', JString ''Other''), (''netflixid'', JString ''456'')]])])"
  by code_simp

lemma search_body_decoded:
  "json_Unmarshal_unogsResponse search_body =
     Inr \<lparr>Count = ''2'',
          Items = [[''title'' \<mapsto> ''Inception'', ''netflixid'' \<mapsto> ''123''],
                   [''title'' \<mapsto> ''Other'', ''netflixid'' \<mapsto> ''456'']]\<rparr>"
  by (simp add: json_Unmarshal_unogsResponse_def search_body_parsed
      store_unogsResponse_field_def store_map_entry_def find_field_def)

lemma empty_body_parsed:
  "parse_json empty_body = Some (JObject [(''COUNT'', JString ''0''), (''ITEMS'', JArray [])])"
  by code_simp

lemma empty_body_decoded:
  "json_Unmarshal_unogsResponse empty_body = Inr \<lparr>Count = ''0'', Items = []\<rparr>"
  by (simp add: json_Unmarshal_unogsResponse_def empty_body_parsed
      store_unogsResponse_field_def find_field_def)

lemma unidentified_body_parsed:
  "parse_json unidentified_body =
     Some (JObject [(''COUNT'', JString ''1''),
       (''ITEMS'', JArray [JObject [(''title'', JString ''Inception'')]])])"
  by code_simp

lemma unidentified_body_decoded:
  "json_Unmarshal_unogsResponse unidentified_body =
     Inr \<lparr>Count = ''1'', Items = [[''title'' \<mapsto> ''Inception'']]\<rparr>"
  by (simp add: json_Unmarshal_unogsResponse_def unidentified_body_parsed
      store_unogsResponse_field_def store_map_entry_def find_field_def)

lemma gateway_page_rejected: "parse_json gateway_page = None"
  by code_simp

text \<open>
  Claim C1. When the search request is answered and its body unmarshals, \<^verbatim>\<open>findNetflixID\<close>
  returns, with no error, the \<^verbatim>\<open>netflixid\<close> entry of the first item of \<^verbatim>\<open>ITEMS\<close> whose
  \<^verbatim>\<open>title\<close> entry equals the normalized title byte for byte: the items before it do not
  match, an identifier it returns that is not empty is the entry of an item with exactly
  that title, and when no item matches, or there is no item, it returns the empty
  identifier. (An entry that an item does not have reads as the empty string.)
\<close>

theorem findNetflixID_first_exact_match:
  assumes "callUnogs env (search_url (normalize title) year) apiKey sent = (Inr body, sent')"
    and "Unmarshal_unogsResponse env body = Inr result"
  shows "findNetflixID env title year apiKey sent =
           (Inr (case find (\<lambda>item. index item ''title'' = normalize title) (Items result) of
                   None \<Rightarrow> [] | Some item \<Rightarrow> index item ''netflixid''), sent')
         \<and> (\<forall>pre item post.
               Items result = pre @ item # post
               \<and> (\<forall>p \<in> set pre. index p ''title'' \<noteq> normalize title)
               \<and> index item ''title'' = normalize title
               \<longrightarrow> fst (findNetflixID env title year apiKey sent) = Inr (index item ''netflixid''))
         \<and> (\<forall>ident. fst (findNetflixID env title year apiKey sent) = Inr ident \<and> ident \<noteq> []
               \<longrightarrow> (\<exists>item \<in> set (Items result).
                      index item ''title'' = normalize title \<and> index item ''netflixid'' = ident))
         \<and> ((\<forall>item \<in> set (Items result). index item ''title'' \<noteq> normalize title)
               \<longrightarrow> fst (findNetflixID env title year apiKey sent) = Inr [])
         \<and> (Items result = [] \<longrightarrow> fst (findNetflixID env title year apiKey sent) = Inr [])"
proof -
  have run: "findNetflixID env title year apiKey sent =
      (Inr (first_match (normalize title) (Items result)), sent')"
    using assms by (simp add: findNetflixID_def)
  then show ?thesis
    using first_match_find [of "normalize title" "Items result"]
      first_match_source [of "normalize title" "Items result"]
    by (auto simp: first_match_split first_match_none)
qed

theorem findNetflixID_first_exact_match_witness:
  "fst (findNetflixID (scripted [(200, search_body)]) ''Inception (2010)'' 2010 ''key'' [])
     = Inr ''123''"
proof -
  let ?env = "scripted [(200, search_body)]"
  have call: "callUnogs ?env (search_url (normalize ''Inception (2010)'') 2010) ''key'' []
      = (Inr search_body, [get_request (search_url (normalize ''Inception (2010)'') 2010) ''key''])"
    by (rule scripted_first_call)
  have dec: "Unmarshal_unogsResponse ?env search_body =
     Inr \<lparr>Count = ''2'',
          Items = [[''title'' \<mapsto> ''Inception'', ''netflixid'' \<mapsto> ''123''],
                   [''title'' \<mapsto> ''Other'', ''netflixid'' \<mapsto> ''456'']]\<rparr>"
    by (simp add: scripted_decoders search_body_decoded)
  from findNetflixID_first_exact_match [OF call dec, THEN conjunct1] show ?thesis
    by (simp add: normalize_examples index_def)
qed

text \<open>
  Claim C9. When the first item whose title equals the normalized title has no
  \<^verbatim>\<open>netflixid\<close> entry, or an empty one, \<^verbatim>\<open>findNetflixID\<close> returns the empty identifier with
  no error, and \<^verbatim>\<open>findOnNetflix\<close> returns false with no error, having sent nothing further.
\<close>

theorem findNetflixID_match_without_identifier:
  assumes "callUnogs env (search_url (normalize title) year) apiKey sent = (Inr body, sent')"
    and "Unmarshal_unogsResponse env body = Inr result"
    and "Items result = pre @ item # post"
    and "\<forall>p \<in> set pre. index p ''title'' \<noteq> normalize title"
    and "index item ''title'' = normalize title"
    and "item ''netflixid'' = None \<or> item ''netflixid'' = Some []"
  shows "findNetflixID env title year apiKey sent = (Inr [], sent')
         \<and> findOnNetflix env title year apiKey sent = (Inr False, sent')"
proof -
  from assms(6) have "index item ''netflixid'' = []" by (auto simp: index_def)
  with assms(3-5) have "first_match (normalize title) (Items result) = []"
    by (simp add: first_match_split)
  with assms(1,2) have "findNetflixID env title year apiKey sent = (Inr [], sent')"
    by (simp add: findNetflixID_def)
  then show ?thesis by (simp add: findOnNetflix_def)
qed

theorem findNetflixID_match_without_identifier_witness:
  "findNetflixID (scripted [(200, unidentified_body)]) ''Inception (2010)'' 2010 ''key'' [] =
     (Inr [], [get_request (search_url (normalize ''Inception (2010)'') 2010) ''key''])
   \<and> findOnNetflix (scripted [(200, unidentified_body)]) ''Inception (2010)'' 2010 ''key'' [] =
     (Inr False, [get_request (search_url (normalize ''Inception (2010)'') 2010) ''key''])"
proof -
  let ?env = "scripted [(200, unidentified_body)]"
  let ?item = "[''title'' \<mapsto> ''Inception'']"
  have call: "callUnogs ?env (search_url (normalize ''Inception (2010)'') 2010) ''key'' []
      = (Inr unidentified_body,
         [get_request (search_url (normalize ''Inception (2010)'') 2010) ''key''])"
    by (rule scripted_first_call)
  have dec: "Unmarshal_unogsResponse ?env unidentified_body =
      Inr \<lparr>Count = ''1'', Items = [?item]\<rparr>"
    by (simp add: scripted_decoders unidentified_body_decoded)
  have items: "Items \<lparr>Count = ''1'', Items = [?item]\<rparr> = [] @ ?item # []" by simp
  have pre: "\<forall>p \<in> set []. index p ''title'' \<noteq> normalize ''Inception (2010)''" by simp
  have hit: "index ?item ''title'' = normalize ''Inception (2010)''"
    by (simp add: index_def normalize_examples)
  have missing: "?item ''netflixid'' = None \<or> ?item ''netflixid'' = Some []" by simp
  show ?thesis
    by (rule findNetflixID_match_without_identifier [OF call dec items pre hit missing])
qed


section \<open>Properties of the availability checker\<close>

lemma any_us_iff: "any_us cs \<longleftrightarrow> (\<exists>c \<in> set cs. Code c = ''us'')"
  by (induction cs) auto

lemma detail_decoded:
  "json_Unmarshal_netflixLookup detail_us =
     Inr \<lparr>Result = \<lparr>Country = [\<lparr>Code = ''ca''\<rparr>, \<lparr>Code = ''us''\<rparr>]\<rparr>\<rparr>"
  "json_Unmarshal_netflixLookup detail_ca = Inr \<lparr>Result = \<lparr>Country = [\<lparr>Code = ''ca''\<rparr>]\<rparr>\<rparr>"
  by code_simp+

text \<open>
  Claim C5. When the detail request is answered and its body unmarshals,
  \<^verbatim>\<open>findOnNetflixUSA\<close> returns, with no error, whether some entry of \<^verbatim>\<open>RESULT.country\<close> has the
  \<^verbatim>\<open>ccode\<close> "us". The theorem after it runs the two bodies of the claim: true for the
  countries "ca" and "us", false for "ca" alone.
\<close>

theorem findOnNetflixUSA_iff_us:
  assumes "callUnogs env (loadvideo_url ident) apiKey sent = (Inr body, sent')"
    and "Unmarshal_netflixLookup env body = Inr lookup"
  shows "findOnNetflixUSA env ident apiKey sent =
           (Inr (\<exists>c \<in> set (Country (Result lookup)). Code c = ''us''), sent')"
  using assms by (simp add: findOnNetflixUSA_def any_us_iff)

theorem findOnNetflixUSA_iff_us_witness:
  "fst (findOnNetflixUSA (scripted [(200, detail_us)]) ''123'' ''key'' []) = Inr True
   \<and> fst (findOnNetflixUSA (scripted [(200, detail_ca)]) ''123'' ''key'' []) = Inr False"
proof -
  have us: "Unmarshal_netflixLookup (scripted [(200, detail_us)]) detail_us =
      Inr \<lparr>Result = \<lparr>Country = [\<lparr>Code = ''ca''\<rparr>, \<lparr>Code = ''us''\<rparr>]\<rparr>\<rparr>"
    and ca: "Unmarshal_netflixLookup (scripted [(200, detail_ca)]) detail_ca =
      Inr \<lparr>Result = \<lparr>Country = [\<lparr>Code = ''ca''\<rparr>]\<rparr>\<rparr>"
    by (simp_all add: scripted_decoders detail_decoded)
  from findOnNetflixUSA_iff_us [OF scripted_first_call us]
    findOnNetflixUSA_iff_us [OF scripted_first_call ca]
  show ?thesis by simp
qed

text \<open>
  Claim C7. When a body cannot be unmarshalled, \<^verbatim>\<open>findNetflixID\<close> and \<^verbatim>\<open>findOnNetflixUSA\<close>
  each return the error of \<^verbatim>\<open>json.Unmarshal\<close> wrapped in a message that ends with the whole
  body as it was received, and no identifier and no availability.
\<close>

theorem malformed_response:
  "(callUnogs env (search_url (normalize title) year) apiKey sent = (Inr body, sent')
      \<and> Unmarshal_unogsResponse env body = Inl err
    \<longrightarrow> findNetflixID env title year apiKey sent =
          (Inl (Wrap err (''unmarshaling netflix API response: '' @ body)), sent'))
   \<and> (callUnogs env (loadvideo_url ident) apiKey sent = (Inr body, sent')
      \<and> Unmarshal_netflixLookup env body = Inl err
    \<longrightarrow> findOnNetflixUSA env ident apiKey sent =
          (Inl (Wrap err (''unmarshaling netflix API response: '' @ body)), sent'))"
  by (simp add: findNetflixID_def findOnNetflixUSA_def)

theorem malformed_response_witness:
  "fst (findNetflixID (scripted [(502, gateway_page)]) ''Inception (2010)'' 2010 ''key'' []) =
     Inl (Wrap SyntaxError (''unmarshaling netflix API response: '' @ gateway_page))
   \<and> fst (findOnNetflixUSA (scripted [(502, gateway_page)]) ''123'' ''key'' []) =
     Inl (Wrap SyntaxError (''unmarshaling netflix API response: '' @ gateway_page))"
proof -
  let ?env = "scripted [(502, gateway_page)]"
  have search: "Unmarshal_unogsResponse ?env gateway_page = Inl SyntaxError"
    and detail: "Unmarshal_netflixLookup ?env gateway_page = Inl SyntaxError"
    by (simp_all add: scripted_decoders json_Unmarshal_unogsResponse_def
        json_Unmarshal_netflixLookup_def gateway_page_rejected)
  have call1: "callUnogs ?env (search_url (normalize ''Inception (2010)'') 2010) ''key'' [] =
      (Inr gateway_page, [get_request (search_url (normalize ''Inception (2010)'') 2010) ''key''])"
    and call2: "callUnogs ?env (loadvideo_url ''123'') ''key'' [] =
      (Inr gateway_page, [get_request (loadvideo_url ''123'') ''key''])"
    by (rule scripted_first_call)+
  from malformed_response [of ?env "''Inception (2010)''" 2010 "''key''" "[]" gateway_page
      "[get_request (search_url (normalize ''Inception (2010)'') 2010) ''key'']" SyntaxError]
    call1 search
  have "findNetflixID ?env ''Inception (2010)'' 2010 ''key'' [] =
      (Inl (Wrap SyntaxError (''unmarshaling netflix API response: '' @ gateway_page)),
       [get_request (search_url (normalize ''Inception (2010)'') 2010) ''key''])"
    by blast
  moreover
  from malformed_response [of ?env _ _ "''key''" "[]" gateway_page
      "[get_request (loadvideo_url ''123'') ''key'']" SyntaxError "''123''"]
    call2 detail
  have "findOnNetflixUSA ?env ''123'' ''key'' [] =
      (Inl (Wrap SyntaxError (''unmarshaling netflix API response: '' @ gateway_page)),
       [get_request (loadvideo_url ''123'') ''key''])"
    by blast
  ultimately show ?thesis by simp
qed


section \<open>Properties of the driver\<close>

text \<open>
  Claim C4. When \<^verbatim>\<open>findNetflixID\<close> succeeds with the empty identifier, \<^verbatim>\<open>findOnNetflix\<close>
  returns false with no error and stops there: the requests sent are those of
  \<^verbatim>\<open>findNetflixID\<close>, which is the one search request, so \<^verbatim>\<open>findOnNetflixUSA\<close> has sent
  none.
\<close>

theorem findOnNetflix_empty_identifier:
  assumes "findNetflixID env title year apiKey sent = (Inr [], sent')"
  shows "findOnNetflix env title year apiKey sent = (Inr False, sent')
         \<and> (\<exists>req. sent' = sent @ [req] \<and> URL req = search_url (normalize title) year)"
  using assms findNetflixID_sent_ok [OF assms] by (simp add: findOnNetflix_def)

theorem findOnNetflix_empty_identifier_witness:
  "findOnNetflix (scripted [(200, empty_body)]) ''Unknown Movie'' 1999 ''key'' [] =
     (Inr False, [get_request (search_url (normalize ''Unknown Movie'') 1999) ''key''])"
proof -
  have "findNetflixID (scripted [(200, empty_body)]) ''Unknown Movie'' 1999 ''key'' [] =
     (Inr [], [get_request (search_url (normalize ''Unknown Movie'') 1999) ''key''])"
    by (simp add: findNetflixID_def scripted_first_call scripted_decoders empty_body_decoded)
  from findOnNetflix_empty_identifier [OF this] show ?thesis by simp
qed

text \<open>
  Claim C6. When \<^verbatim>\<open>findNetflixID\<close> fails, \<^verbatim>\<open>findOnNetflix\<close> returns its error wrapped with
  "finding Netflix ID" and stops there: the requests sent are those of \<^verbatim>\<open>findNetflixID\<close>,
  at most the one search request, so no second lookup has taken place.
\<close>

theorem findOnNetflix_resolution_error:
  assumes "findNetflixID env title year apiKey sent = (Inl err, sent')"
  shows "findOnNetflix env title year apiKey sent =
           (Inl (Wrap err ''finding Netflix ID''), sent')
         \<and> (sent' = sent \<or>
              (\<exists>req. sent' = sent @ [req] \<and> URL req = search_url (normalize title) year))"
  using assms findNetflixID_sent [OF assms] by (simp add: findOnNetflix_def)

theorem findOnNetflix_resolution_error_witness:
  "findOnNetflix (scripted []) ''Inception (2010)'' 2010 ''key'' [] =
     (Inl (Wrap (Fault ''connection refused'') ''finding Netflix ID''),
      [get_request (search_url (normalize ''Inception (2010)'') 2010) ''key''])"
proof -
  have "findNetflixID (scripted []) ''Inception (2010)'' 2010 ''key'' [] =
     (Inl (Fault ''connection refused''),
      [get_request (search_url (normalize ''Inception (2010)'') 2010) ''key''])"
    by (simp add: findNetflixID_def scripted_no_answer)
  from findOnNetflix_resolution_error [OF this] show ?thesis by simp
qed


section \<open>Which bodies are malformed\<close>

lemma store_members_skip:
  "\<forall>kv \<in> set kvs. f kv dst = (dst, False) \<Longrightarrow> store_members f kvs dst = (dst, False)"
  by (induction kvs) simp_all

lemma store_unogsResponse_lacking:
  "lacks_fields [''COUNT'', ''ITEMS''] v \<Longrightarrow> store_unogsResponse v dst = (dst, False)"
  by (cases v) (auto simp: list_all_iff store_unogsResponse_field_def
      intro!: store_members_skip)

lemma store_netflixLookup_lacking:
  "lacks_fields [''RESULT''] v \<Longrightarrow> store_netflixLookup v dst = (dst, False)"
  by (cases v) (auto simp: list_all_iff store_netflixLookup_field_def
      intro!: store_members_skip)

lemma braces_parsed:
  "parse_json ''{}'' = Some (JObject [])"
  "parse_json ''null'' = Some JNull"
  "parse_json ''[]'' = Some (JArray [])"
  by code_simp+

text \<open>
  Claim C10, as stated, fails: a body can be well-formed JSON and still be reported as
  malformed. Here the \<^verbatim>\<open>netflixid\<close> of an item is a JSON number, which
  \<^verbatim>\<open>json.Unmarshal\<close> does not store into a Go string.
\<close>

theorem type_mismatch_is_malformed:
  "parse_json typed_body \<noteq> None
   \<and> fst (findNetflixID (scripted [(200, typed_body)]) ''Inception (2010)'' 2010 ''key'' []) =
       Inl (Wrap UnmarshalTypeError (''unmarshaling netflix API response: '' @ typed_body))"
  by code_simp

lemma store_string_bad: "snd (store_string v old) \<longleftrightarrow> \<not> fits_string v"
  by (cases v) simp_all

lemma store_members_bad:
  assumes "\<And>kv dst. snd (f kv dst) \<longleftrightarrow> \<not> P kv"
  shows "snd (store_members f kvs dst) \<longleftrightarrow> \<not> list_all P kvs"
proof (induction kvs arbitrary: dst)
  case Nil
  show ?case by simp
next
  case (Cons kv kvs)
  obtain d1 b1 where f: "f kv dst = (d1, b1)" by fastforce
  obtain d2 b2 where r: "store_members f kvs d1 = (d2, b2)" by fastforce
  from assms [of kv dst] f have "b1 \<longleftrightarrow> \<not> P kv" by simp
  moreover from Cons.IH [of d1] r have "b2 \<longleftrightarrow> \<not> list_all P kvs" by simp
  ultimately show ?case using f r by simp
qed

lemma store_elements_bad:
  assumes "\<And>e d. snd (f e d) \<longleftrightarrow> \<not> P e"
  shows "snd (store_elements f zero es old) \<longleftrightarrow> \<not> list_all P es"
proof (induction es arbitrary: old)
  case Nil
  show ?case by simp
next
  case (Cons e es)
  let ?d = "case old of [] \<Rightarrow> zero | x # _ \<Rightarrow> x"
  obtain y b1 where f: "f e ?d = (y, b1)" by fastforce
  obtain ys b2 where r: "store_elements f zero es (tl old) = (ys, b2)" by fastforce
  from assms [of e ?d] f have "b1 \<longleftrightarrow> \<not> P e" by simp
  moreover from Cons.IH [of "tl old"] r have "b2 \<longleftrightarrow> \<not> list_all P es" by simp
  ultimately show ?case using f r by simp
qed

lemma store_slice_bad:
  assumes "\<And>e d. snd (f e d) \<longleftrightarrow> \<not> P e"
  shows "snd (store_slice f zero v sl) \<longleftrightarrow> \<not> fits_slice P v"
proof (cases sl)
  case (Pair vis spare)
  show ?thesis
  proof (cases v)
    case (JArray es)
    obtain xs b where r: "store_elements f zero es (vis @ spare) = (xs, b)" by fastforce
    with store_elements_bad [of f P zero es "vis @ spare", OF assms]
    have "b \<longleftrightarrow> \<not> list_all P es" by simp
    with r Pair JArray show ?thesis by (cases es) simp_all
  qed (simp_all add: Pair)
qed

lemma store_map_entry_bad: "snd (store_map_entry kv m) \<longleftrightarrow> \<not> fits_string (snd kv)"
proof -
  obtain x b where r: "store_string (snd kv) [] = (x, b)" by fastforce
  with store_string_bad [of "snd kv" "[]"] have "b \<longleftrightarrow> \<not> fits_string (snd kv)" by simp
  with r show ?thesis by (simp add: store_map_entry_def)
qed

lemma store_map_bad: "snd (store_map v m) \<longleftrightarrow> \<not> fits_map v"
  by (cases v) (simp_all add: store_members_bad [of store_map_entry, OF store_map_entry_bad])

lemma store_unogsResponse_field_bad:
  "snd (store_unogsResponse_field kv dst) \<longleftrightarrow> \<not> fits_unogsResponse_member kv"
proof -
  obtain c b1 where r1: "store_string (snd kv) (fst dst) = (c, b1)" by fastforce
  obtain sl b2 where r2: "store_slice store_map Map.empty (snd kv) (snd dst) = (sl, b2)"
    by fastforce
  from store_string_bad [of "snd kv" "fst dst"] r1
  have "b1 \<longleftrightarrow> \<not> fits_string (snd kv)" by simp
  moreover
  from store_slice_bad [of store_map fits_map Map.empty "snd kv" "snd dst", OF store_map_bad] r2
  have "b2 \<longleftrightarrow> \<not> fits_slice fits_map (snd kv)" by simp
  ultimately show ?thesis using r1 r2
    by (simp add: store_unogsResponse_field_def fits_unogsResponse_member_def
        split: option.splits)
qed

lemma store_unogsResponse_bad: "snd (store_unogsResponse v dst) \<longleftrightarrow> \<not> fits_unogsResponse v"
  by (cases v)
    (simp_all add: store_members_bad [of store_unogsResponse_field, OF store_unogsResponse_field_bad])

lemma store_netflixCountry_field_bad:
  "snd (store_netflixCountry_field kv dst) \<longleftrightarrow> \<not> fits_netflixCountry_member kv"
proof -
  obtain c b where r: "store_string (snd kv) (Code dst) = (c, b)" by fastforce
  with store_string_bad [of "snd kv" "Code dst"] have "b \<longleftrightarrow> \<not> fits_string (snd kv)" by simp
  with r show ?thesis
    by (simp add: store_netflixCountry_field_def fits_netflixCountry_member_def
        split: option.splits)
qed

lemma store_netflixCountry_bad:
  "snd (store_netflixCountry v dst) \<longleftrightarrow> \<not> fits_netflixCountry v"
  by (cases v)
    (simp_all add: store_members_bad [of store_netflixCountry_field,
        OF store_netflixCountry_field_bad])

lemma store_netflixLookupResult_field_bad:
  "snd (store_netflixLookupResult_field kv dst) \<longleftrightarrow> \<not> fits_netflixLookupResult_member kv"
  using store_slice_bad [of store_netflixCountry fits_netflixCountry "\<lparr>Code = []\<rparr>" "snd kv" dst,
      OF store_netflixCountry_bad]
  by (simp add: store_netflixLookupResult_field_def fits_netflixLookupResult_member_def
      split: option.splits)

lemma store_netflixLookupResult_bad:
  "snd (store_netflixLookupResult v dst) \<longleftrightarrow> \<not> fits_netflixLookupResult v"
  by (cases v)
    (simp_all add: store_members_bad [of store_netflixLookupResult_field,
        OF store_netflixLookupResult_field_bad])

lemma store_netflixLookup_field_bad:
  "snd (store_netflixLookup_field kv dst) \<longleftrightarrow> \<not> fits_netflixLookup_member kv"
  using store_netflixLookupResult_bad [of "snd kv" dst]
  by (simp add: store_netflixLookup_field_def fits_netflixLookup_member_def
      split: option.splits)

lemma store_netflixLookup_bad:
  "snd (store_netflixLookup v dst) \<longleftrightarrow> \<not> fits_netflixLookup v"
  by (cases v)
    (simp_all add: store_members_bad [of store_netflixLookup_field,
        OF store_netflixLookup_field_bad])

lemma json_Unmarshal_unogsResponse_cases:
  "json_Unmarshal_unogsResponse data =
     (case parse_json data of
        None \<Rightarrow> Inl SyntaxError
      | Some v \<Rightarrow>
          if fits_unogsResponse v
          then Inr \<lparr>Count = fst (fst (store_unogsResponse v ([], ([], [])))),
                    Items = fst (snd (fst (store_unogsResponse v ([], ([], [])))))\<rparr>
          else Inl UnmarshalTypeError)"
proof (cases "parse_json data")
  case None
  then show ?thesis by (simp add: json_Unmarshal_unogsResponse_def)
next
  case (Some v)
  obtain c items spare b where r: "store_unogsResponse v ([], ([], [])) = ((c, (items, spare)), b)"
    by (metis prod.exhaust)
  with store_unogsResponse_bad [of v "([], ([], []))"] have "b \<longleftrightarrow> \<not> fits_unogsResponse v"
    by simp
  with Some r show ?thesis by (simp add: json_Unmarshal_unogsResponse_def)
qed

lemma json_Unmarshal_netflixLookup_cases:
  "json_Unmarshal_netflixLookup data =
     (case parse_json data of
        None \<Rightarrow> Inl SyntaxError
      | Some v \<Rightarrow>
          if fits_netflixLookup v
          then Inr \<lparr>Result = \<lparr>Country = fst (fst (store_netflixLookup v ([], [])))\<rparr>\<rparr>
          else Inl UnmarshalTypeError)"
proof (cases "parse_json data")
  case None
  then show ?thesis by (simp add: json_Unmarshal_netflixLookup_def)
next
  case (Some v)
  obtain countries spare b where r: "store_netflixLookup v ([], []) = ((countries, spare), b)"
    by (metis prod.exhaust)
  with store_netflixLookup_bad [of v "([], [])"] have "b \<longleftrightarrow> \<not> fits_netflixLookup v"
    by simp
  with Some r show ?thesis by (simp add: json_Unmarshal_netflixLookup_def)
qed

lemma lacks_fields_fits:
  "lacks_fields [''COUNT'', ''ITEMS''] v \<Longrightarrow> fits_unogsResponse v"
  "lacks_fields [''RESULT''] v \<Longrightarrow> fits_netflixLookup v"
  by (cases v; auto simp: list_all_iff fits_unogsResponse_member_def
      fits_netflixLookup_member_def)+

lemma not_a_struct_misfit:
  "not_a_struct v \<Longrightarrow> \<not> fits_unogsResponse v"
  "not_a_struct v \<Longrightarrow> \<not> fits_netflixLookup v"
  by (cases v; simp)+

lemma list_all_member: "x \<in> set xs \<Longrightarrow> \<not> P x \<Longrightarrow> \<not> list_all P xs"
  by (auto simp: list_all_iff)

lemma misfit_COUNT:
  assumes "(k, x) \<in> set kvs" and "find_field [''COUNT'', ''ITEMS''] k = Some ''COUNT''"
    and "\<not> fits_string x"
  shows "\<not> fits_unogsResponse (JObject kvs)"
proof -
  from assms(2,3) have "\<not> fits_unogsResponse_member (k, x)"
    by (simp add: fits_unogsResponse_member_def)
  with assms(1) show ?thesis by (simp add: list_all_member)
qed

lemma misfit_item:
  assumes "(k, JArray es) \<in> set kvs" and "find_field [''COUNT'', ''ITEMS''] k = Some ''ITEMS''"
    and "JObject item \<in> set es" and "(key, x) \<in> set item" and "\<not> fits_string x"
  shows "\<not> fits_unogsResponse (JObject kvs)"
proof -
  from assms(4,5) have "\<not> fits_map (JObject item)"
    using list_all_member [of "(key, x)" item "\<lambda>kv. fits_string (snd kv)"] by simp
  with assms(3) have "\<not> fits_slice fits_map (JArray es)" by (simp add: list_all_member)
  with assms(2) have "\<not> fits_unogsResponse_member (k, JArray es)"
    by (simp add: fits_unogsResponse_member_def)
  with assms(1) show ?thesis by (simp add: list_all_member)
qed

lemma misfit_ccode:
  assumes "(k1, JObject res) \<in> set kvs" and "find_field [''RESULT''] k1 = Some ''RESULT''"
    and "(k2, JArray cs) \<in> set res" and "find_field [''country''] k2 = Some ''country''"
    and "JObject country \<in> set cs"
    and "(k3, x) \<in> set country" and "find_field [''ccode''] k3 = Some ''ccode''"
    and "\<not> fits_string x"
  shows "\<not> fits_netflixLookup (JObject kvs)"
proof -
  from assms(7,8) have "\<not> fits_netflixCountry_member (k3, x)"
    by (simp add: fits_netflixCountry_member_def)
  with assms(6) have "\<not> fits_netflixCountry (JObject country)"
    by (simp add: list_all_member)
  with assms(5) have "\<not> fits_slice fits_netflixCountry (JArray cs)"
    by (simp add: list_all_member)
  with assms(4) have "\<not> fits_netflixLookupResult_member (k2, JArray cs)"
    by (simp add: fits_netflixLookupResult_member_def)
  with assms(3) have "\<not> fits_netflixLookupResult (JObject res)"
    by (simp add: list_all_member)
  with assms(2) have "\<not> fits_netflixLookup_member (k1, JObject res)"
    by (simp add: fits_netflixLookup_member_def)
  with assms(1) show ?thesis by (simp add: list_all_member)
qed

lemma findNetflixID_by_body:
  assumes "Unmarshal_unogsResponse env = json_Unmarshal_unogsResponse"
    and "callUnogs env (search_url (normalize title) year) apiKey sent = (Inr body, sent')"
  shows "findNetflixID env title year apiKey sent =
     (case parse_json body of
        None \<Rightarrow> (Inl (Wrap SyntaxError (''unmarshaling netflix API response: '' @ body)), sent')
      | Some v \<Rightarrow>
          if fits_unogsResponse v
          then (Inr (first_match (normalize title)
                  (fst (snd (fst (store_unogsResponse v ([], ([], []))))))), sent')
          else (Inl (Wrap UnmarshalTypeError (''unmarshaling netflix API response: '' @ body)),
                sent'))"
  using assms
  by (simp add: findNetflixID_def json_Unmarshal_unogsResponse_cases split: option.splits)

lemma findOnNetflixUSA_by_body:
  assumes "Unmarshal_netflixLookup env = json_Unmarshal_netflixLookup"
    and "callUnogs env (loadvideo_url ident) apiKey sent = (Inr body, sent')"
  shows "findOnNetflixUSA env ident apiKey sent =
     (case parse_json body of
        None \<Rightarrow> (Inl (Wrap SyntaxError (''unmarshaling netflix API response: '' @ body)), sent')
      | Some v \<Rightarrow>
          if fits_netflixLookup v
          then (Inr (any_us (fst (fst (store_netflixLookup v ([], []))))), sent')
          else (Inl (Wrap UnmarshalTypeError (''unmarshaling netflix API response: '' @ body)),
                sent'))"
  using assms
  by (simp add: findOnNetflixUSA_def json_Unmarshal_netflixLookup_cases split: option.splits)


lemma example_bodies_fit:
  "map_option fits_unogsResponse (parse_json count_number_body) = Some False"
  "map_option fits_unogsResponse (parse_json count_string_body) = Some True"
  "map_option fits_unogsResponse (parse_json search_body) = Some True"
  "map_option fits_unogsResponse (parse_json typed_body) = Some False"
  "map_option fits_netflixLookup (parse_json ccode_number_body) = Some False"
  "map_option fits_netflixLookup (parse_json result_empty_body) = Some True"
  "map_option fits_netflixLookup (parse_json detail_us) = Some True"
  by code_simp+


text \<open>
  Claim C10, amended. With \<^verbatim>\<open>json.Unmarshal\<close> as modelled above, a body is reported as
  malformed exactly when it is not JSON or some value in it does not fit the Go type it is
  stored into: \<^verbatim>\<open>findNetflixID\<close> and \<^verbatim>\<open>findOnNetflixUSA\<close> return an error if and only if
  the body has a syntax error (the wrapped error is then a syntax error) or parses to a value
  that does not fit (then a type error), and return a result with no error for every other
  body. A value that is an array, a string, a number or a boolean does not fit, nor does a
  body in which \<^verbatim>\<open>COUNT\<close>, a member of an item of \<^verbatim>\<open>ITEMS\<close>, or a \<^verbatim>\<open>ccode\<close> of an
  entry of \<^verbatim>\<open>RESULT.country\<close> is neither a string nor \<^verbatim>\<open>null\<close>, such as a number. A JSON
  text that is \<^verbatim>\<open>null\<close>, or an object none of whose keys selects an expected field (such
  as the empty object), unmarshals to zero values: \<^verbatim>\<open>findNetflixID\<close> returns the empty
  identifier, \<^verbatim>\<open>findOnNetflix\<close> returns false, and \<^verbatim>\<open>findOnNetflixUSA\<close> returns false.
\<close>

theorem malformed_iff_syntax_or_type_error:
  assumes "Unmarshal_unogsResponse env = json_Unmarshal_unogsResponse"
    and "Unmarshal_netflixLookup env = json_Unmarshal_netflixLookup"
  shows
  "(callUnogs env (search_url (normalize title) year) apiKey sent = (Inr body, sent') \<longrightarrow>
      (isl (fst (findNetflixID env title year apiKey sent)) \<longleftrightarrow>
         parse_json body = None \<or> (\<exists>v. parse_json body = Some v \<and> \<not> fits_unogsResponse v))
    \<and> (parse_json body = None \<longrightarrow>
         findNetflixID env title year apiKey sent =
           (Inl (Wrap SyntaxError (''unmarshaling netflix API response: '' @ body)), sent'))
    \<and> (\<forall>v. parse_json body = Some v \<and> \<not> fits_unogsResponse v \<longrightarrow>
         findNetflixID env title year apiKey sent =
           (Inl (Wrap UnmarshalTypeError (''unmarshaling netflix API response: '' @ body)),
            sent'))
    \<and> (\<forall>v. parse_json body = Some v \<and> not_a_struct v \<longrightarrow>
         findNetflixID env title year apiKey sent =
           (Inl (Wrap UnmarshalTypeError (''unmarshaling netflix API response: '' @ body)),
            sent'))
    \<and> (\<forall>kvs k x. parse_json body = Some (JObject kvs) \<and> (k, x) \<in> set kvs
           \<and> find_field [''COUNT'', ''ITEMS''] k = Some ''COUNT'' \<and> \<not> fits_string x \<longrightarrow>
         findNetflixID env title year apiKey sent =
           (Inl (Wrap UnmarshalTypeError (''unmarshaling netflix API response: '' @ body)),
            sent'))
    \<and> (\<forall>kvs k es item key x. parse_json body = Some (JObject kvs)
           \<and> (k, JArray es) \<in> set kvs \<and> find_field [''COUNT'', ''ITEMS''] k = Some ''ITEMS''
           \<and> JObject item \<in> set es \<and> (key, x) \<in> set item \<and> \<not> fits_string x \<longrightarrow>
         findNetflixID env title year apiKey sent =
           (Inl (Wrap UnmarshalTypeError (''unmarshaling netflix API response: '' @ body)),
            sent'))
    \<and> (\<forall>v. parse_json body = Some v \<and> fits_unogsResponse v \<longrightarrow>
         (\<exists>netflixID. findNetflixID env title year apiKey sent = (Inr netflixID, sent')))
    \<and> (\<forall>v. parse_json body = Some v \<and> lacks_fields [''COUNT'', ''ITEMS''] v \<longrightarrow>
         findNetflixID env title year apiKey sent = (Inr [], sent')
         \<and> findOnNetflix env title year apiKey sent = (Inr False, sent')))
   \<and> (callUnogs env (loadvideo_url ident) apiKey sent = (Inr body, sent') \<longrightarrow>
      (isl (fst (findOnNetflixUSA env ident apiKey sent)) \<longleftrightarrow>
         parse_json body = None \<or> (\<exists>v. parse_json body = Some v \<and> \<not> fits_netflixLookup v))
    \<and> (parse_json body = None \<longrightarrow>
         findOnNetflixUSA env ident apiKey sent =
           (Inl (Wrap SyntaxError (''unmarshaling netflix API response: '' @ body)), sent'))
    \<and> (\<forall>v. parse_json body = Some v \<and> \<not> fits_netflixLookup v \<longrightarrow>
         findOnNetflixUSA env ident apiKey sent =
           (Inl (Wrap UnmarshalTypeError (''unmarshaling netflix API response: '' @ body)),
            sent'))
    \<and> (\<forall>v. parse_json body = Some v \<and> not_a_struct v \<longrightarrow>
         findOnNetflixUSA env ident apiKey sent =
           (Inl (Wrap UnmarshalTypeError (''unmarshaling netflix API response: '' @ body)),
            sent'))
    \<and> (\<forall>kvs k1 res k2 cs country k3 x. parse_json body = Some (JObject kvs)
           \<and> (k1, JObject res) \<in> set kvs \<and> find_field [''RESULT''] k1 = Some ''RESULT''
           \<and> (k2, JArray cs) \<in> set res \<and> find_field [''country''] k2 = Some ''country''
           \<and> JObject country \<in> set cs
           \<and> (k3, x) \<in> set country \<and> find_field [''ccode''] k3 = Some ''ccode''
           \<and> \<not> fits_string x \<longrightarrow>
         findOnNetflixUSA env ident apiKey sent =
           (Inl (Wrap UnmarshalTypeError (''unmarshaling netflix API response: '' @ body)),
            sent'))
    \<and> (\<forall>v. parse_json body = Some v \<and> fits_netflixLookup v \<longrightarrow>
         (\<exists>found. findOnNetflixUSA env ident apiKey sent = (Inr found, sent')))
    \<and> (\<forall>v. parse_json body = Some v \<and> lacks_fields [''RESULT''] v \<longrightarrow>
         findOnNetflixUSA env ident apiKey sent = (Inr False, sent')))"
proof (intro conjI impI)
  assume call: "callUnogs env (search_url (normalize title) year) apiKey sent = (Inr body, sent')"
  note run = findNetflixID_by_body [OF assms(1) call]
  show "isl (fst (findNetflixID env title year apiKey sent)) \<longleftrightarrow>
         parse_json body = None \<or> (\<exists>v. parse_json body = Some v \<and> \<not> fits_unogsResponse v)"
    by (simp add: run split: option.splits)
  show "findNetflixID env title year apiKey sent =
           (Inl (Wrap SyntaxError (''unmarshaling netflix API response: '' @ body)), sent')"
    if "parse_json body = None"
    using that by (simp add: run)
  show "\<forall>v. parse_json body = Some v \<and> \<not> fits_unogsResponse v \<longrightarrow>
         findNetflixID env title year apiKey sent =
           (Inl (Wrap UnmarshalTypeError (''unmarshaling netflix API response: '' @ body)),
            sent')"
    by (simp add: run)
  show "\<forall>v. parse_json body = Some v \<and> not_a_struct v \<longrightarrow>
         findNetflixID env title year apiKey sent =
           (Inl (Wrap UnmarshalTypeError (''unmarshaling netflix API response: '' @ body)),
            sent')"
    by (auto simp: run not_a_struct_misfit)
  show "\<forall>kvs k x. parse_json body = Some (JObject kvs) \<and> (k, x) \<in> set kvs
           \<and> find_field [''COUNT'', ''ITEMS''] k = Some ''COUNT'' \<and> \<not> fits_string x \<longrightarrow>
         findNetflixID env title year apiKey sent =
           (Inl (Wrap UnmarshalTypeError (''unmarshaling netflix API response: '' @ body)),
            sent')"
    by (auto simp: run dest: misfit_COUNT)
  show "\<forall>kvs k es item key x. parse_json body = Some (JObject kvs)
           \<and> (k, JArray es) \<in> set kvs \<and> find_field [''COUNT'', ''ITEMS''] k = Some ''ITEMS''
           \<and> JObject item \<in> set es \<and> (key, x) \<in> set item \<and> \<not> fits_string x \<longrightarrow>
         findNetflixID env title year apiKey sent =
           (Inl (Wrap UnmarshalTypeError (''unmarshaling netflix API response: '' @ body)),
            sent')"
    by (auto simp: run dest: misfit_item)
  show "\<forall>v. parse_json body = Some v \<and> fits_unogsResponse v \<longrightarrow>
         (\<exists>netflixID. findNetflixID env title year apiKey sent = (Inr netflixID, sent'))"
    by (simp add: run)
  show "\<forall>v. parse_json body = Some v \<and> lacks_fields [''COUNT'', ''ITEMS''] v \<longrightarrow>
         findNetflixID env title year apiKey sent = (Inr [], sent')
         \<and> findOnNetflix env title year apiKey sent = (Inr False, sent')"
    by (auto simp: run findOnNetflix_def lacks_fields_fits store_unogsResponse_lacking)
next
  assume call: "callUnogs env (loadvideo_url ident) apiKey sent = (Inr body, sent')"
  note run = findOnNetflixUSA_by_body [OF assms(2) call]
  show "isl (fst (findOnNetflixUSA env ident apiKey sent)) \<longleftrightarrow>
         parse_json body = None \<or> (\<exists>v. parse_json body = Some v \<and> \<not> fits_netflixLookup v)"
    by (simp add: run split: option.splits)
  show "findOnNetflixUSA env ident apiKey sent =
           (Inl (Wrap SyntaxError (''unmarshaling netflix API response: '' @ body)), sent')"
    if "parse_json body = None"
    using that by (simp add: run)
  show "\<forall>v. parse_json body = Some v \<and> \<not> fits_netflixLookup v \<longrightarrow>
         findOnNetflixUSA env ident apiKey sent =
           (Inl (Wrap UnmarshalTypeError (''unmarshaling netflix API response: '' @ body)),
            sent')"
    by (simp add: run)
  show "\<forall>v. parse_json body = Some v \<and> not_a_struct v \<longrightarrow>
         findOnNetflixUSA env ident apiKey sent =
           (Inl (Wrap UnmarshalTypeError (''unmarshaling netflix API response: '' @ body)),
            sent')"
    by (auto simp: run not_a_struct_misfit)
  show "\<forall>kvs k1 res k2 cs country k3 x. parse_json body = Some (JObject kvs)
           \<and> (k1, JObject res) \<in> set kvs \<and> find_field [''RESULT''] k1 = Some ''RESULT''
           \<and> (k2, JArray cs) \<in> set res \<and> find_field [''country''] k2 = Some ''country''
           \<and> JObject country \<in> set cs
           \<and> (k3, x) \<in> set country \<and> find_field [''ccode''] k3 = Some ''ccode''
           \<and> \<not> fits_string x \<longrightarrow>
         findOnNetflixUSA env ident apiKey sent =
           (Inl (Wrap UnmarshalTypeError (''unmarshaling netflix API response: '' @ body)),
            sent')"
    by (auto simp: run dest: misfit_ccode)
  show "\<forall>v. parse_json body = Some v \<and> fits_netflixLookup v \<longrightarrow>
         (\<exists>found. findOnNetflixUSA env ident apiKey sent = (Inr found, sent'))"
    by (simp add: run)
  show "\<forall>v. parse_json body = Some v \<and> lacks_fields [''RESULT''] v \<longrightarrow>
         findOnNetflixUSA env ident apiKey sent = (Inr False, sent')"
    by (auto simp: run lacks_fields_fits store_netflixLookup_lacking)
qed

theorem malformed_iff_syntax_or_type_error_witness:
  "findNetflixID (scripted [(200, ''{}'')]) ''Inception (2010)'' 2010 ''key'' [] =
     (Inr [], [get_request (search_url (normalize ''Inception (2010)'') 2010) ''key''])
   \<and> findNetflixID (scripted [(200, ''null'')]) ''Inception (2010)'' 2010 ''key'' [] =
     (Inr [], [get_request (search_url (normalize ''Inception (2010)'') 2010) ''key''])
   \<and> findOnNetflixUSA (scripted [(200, ''{}'')]) ''123'' ''key'' [] =
     (Inr False, [get_request (loadvideo_url ''123'') ''key''])
   \<and> findOnNetflixUSA (scripted [(200, ''null'')]) ''123'' ''key'' [] =
     (Inr False, [get_request (loadvideo_url ''123'') ''key''])
   \<and> findNetflixID (scripted [(200, gateway_page)]) ''Inception (2010)'' 2010 ''key'' [] =
     (Inl (Wrap SyntaxError (''unmarshaling netflix API response: '' @ gateway_page)),
      [get_request (search_url (normalize ''Inception (2010)'') 2010) ''key''])
   \<and> findOnNetflixUSA (scripted [(200, ''[]'')]) ''123'' ''key'' [] =
     (Inl (Wrap UnmarshalTypeError (''unmarshaling netflix API response: '' @ ''[]'')),
      [get_request (loadvideo_url ''123'') ''key''])
   \<and> findNetflixID (scripted [(200, count_number_body)]) ''Inception (2010)'' 2010 ''key'' [] =
     (Inl (Wrap UnmarshalTypeError (''unmarshaling netflix API response: '' @ count_number_body)),
      [get_request (search_url (normalize ''Inception (2010)'') 2010) ''key''])
   \<and> findOnNetflixUSA (scripted [(200, ccode_number_body)]) ''123'' ''key'' [] =
     (Inl (Wrap UnmarshalTypeError (''unmarshaling netflix API response: '' @ ccode_number_body)),
      [get_request (loadvideo_url ''123'') ''key''])
   \<and> isl (fst (findNetflixID (scripted [(200, count_string_body)])
         ''Inception (2010)'' 2010 ''key'' [])) = False
   \<and> isl (fst (findNetflixID (scripted [(200, search_body)])
         ''Inception (2010)'' 2010 ''key'' [])) = False
   \<and> isl (fst (findOnNetflixUSA (scripted [(200, result_empty_body)]) ''123'' ''key'' [])) = False
   \<and> isl (fst (findOnNetflixUSA (scripted [(200, detail_us)]) ''123'' ''key'' [])) = False"
proof -
  let ?search = "search_url (normalize ''Inception (2010)'') 2010"
  let ?sent1 = "[get_request ?search ''key'']"
  let ?sent2 = "[get_request (loadvideo_url ''123'') ''key'']"
  have resolver:
    "(isl (fst (findNetflixID (scripted [(200, body)]) ''Inception (2010)'' 2010 ''key'' [])) \<longleftrightarrow>
         parse_json body = None \<or> (\<exists>v. parse_json body = Some v \<and> \<not> fits_unogsResponse v))
    \<and> (parse_json body = None \<longrightarrow>
         findNetflixID (scripted [(200, body)]) ''Inception (2010)'' 2010 ''key'' [] =
           (Inl (Wrap SyntaxError (''unmarshaling netflix API response: '' @ body)), ?sent1))
    \<and> (\<forall>v. parse_json body = Some v \<and> \<not> fits_unogsResponse v \<longrightarrow>
         findNetflixID (scripted [(200, body)]) ''Inception (2010)'' 2010 ''key'' [] =
           (Inl (Wrap UnmarshalTypeError (''unmarshaling netflix API response: '' @ body)),
            ?sent1))
    \<and> (\<forall>v. parse_json body = Some v \<and> lacks_fields [''COUNT'', ''ITEMS''] v \<longrightarrow>
         findNetflixID (scripted [(200, body)]) ''Inception (2010)'' 2010 ''key'' [] =
           (Inr [], ?sent1))" for body
    using malformed_iff_syntax_or_type_error [OF scripted_decoders,
        of "[(200, body)]" "''Inception (2010)''" 2010 "''key''" "[]" body ?sent1]
      scripted_first_call [of 200 body "[]" ?search "''key''"]
    by simp
  have checker:
    "(isl (fst (findOnNetflixUSA (scripted [(200, body)]) ''123'' ''key'' [])) \<longleftrightarrow>
         parse_json body = None \<or> (\<exists>v. parse_json body = Some v \<and> \<not> fits_netflixLookup v))
    \<and> (\<forall>v. parse_json body = Some v \<and> \<not> fits_netflixLookup v \<longrightarrow>
         findOnNetflixUSA (scripted [(200, body)]) ''123'' ''key'' [] =
           (Inl (Wrap UnmarshalTypeError (''unmarshaling netflix API response: '' @ body)),
            ?sent2))
    \<and> (\<forall>v. parse_json body = Some v \<and> lacks_fields [''RESULT''] v \<longrightarrow>
         findOnNetflixUSA (scripted [(200, body)]) ''123'' ''key'' [] = (Inr False, ?sent2))"
    for body
    using malformed_iff_syntax_or_type_error [OF scripted_decoders,
        of "[(200, body)]" _ _ "''key''" "[]" body ?sent2 "''123''"]
      scripted_first_call [of 200 body "[]" "loadvideo_url ''123''" "''key''"]
    by simp
  have c1: "findNetflixID (scripted [(200, ''{}'')]) ''Inception (2010)'' 2010 ''key'' [] =
      (Inr [], ?sent1)"
    using resolver [of "''{}''"] braces_parsed(1) by simp
  have c2: "findNetflixID (scripted [(200, ''null'')]) ''Inception (2010)'' 2010 ''key'' [] =
      (Inr [], ?sent1)"
    using resolver [of "''null''"] braces_parsed(2) by simp
  have c3: "findOnNetflixUSA (scripted [(200, ''{}'')]) ''123'' ''key'' [] = (Inr False, ?sent2)"
    using checker [of "''{}''"] braces_parsed(1) by simp
  have c4: "findOnNetflixUSA (scripted [(200, ''null'')]) ''123'' ''key'' [] = (Inr False, ?sent2)"
    using checker [of "''null''"] braces_parsed(2) by simp
  have c5: "findNetflixID (scripted [(200, gateway_page)]) ''Inception (2010)'' 2010 ''key'' [] =
     (Inl (Wrap SyntaxError (''unmarshaling netflix API response: '' @ gateway_page)), ?sent1)"
    using resolver [of gateway_page] gateway_page_rejected by simp
  have c6: "findOnNetflixUSA (scripted [(200, ''[]'')]) ''123'' ''key'' [] =
     (Inl (Wrap UnmarshalTypeError (''unmarshaling netflix API response: '' @ ''[]'')), ?sent2)"
    using checker [of "''[]''"] braces_parsed(3) by simp
  have c7: "findNetflixID (scripted [(200, count_number_body)]) ''Inception (2010)'' 2010 ''key'' [] =
     (Inl (Wrap UnmarshalTypeError (''unmarshaling netflix API response: '' @ count_number_body)),
      ?sent1)"
    using resolver [of count_number_body] example_bodies_fit(1) by auto
  have c8: "findOnNetflixUSA (scripted [(200, ccode_number_body)]) ''123'' ''key'' [] =
     (Inl (Wrap UnmarshalTypeError (''unmarshaling netflix API response: '' @ ccode_number_body)),
      ?sent2)"
    using checker [of ccode_number_body] example_bodies_fit(5) by auto
  have c9: "isl (fst (findNetflixID (scripted [(200, count_string_body)])
         ''Inception (2010)'' 2010 ''key'' [])) = False"
    using resolver [of count_string_body] example_bodies_fit(2) by auto
  have c10: "isl (fst (findNetflixID (scripted [(200, search_body)])
         ''Inception (2010)'' 2010 ''key'' [])) = False"
    using resolver [of search_body] example_bodies_fit(3) by auto
  have c11: "isl (fst (findOnNetflixUSA (scripted [(200, result_empty_body)])
         ''123'' ''key'' [])) = False"
    using checker [of result_empty_body] example_bodies_fit(6) by auto
  have c12: "isl (fst (findOnNetflixUSA (scripted [(200, detail_us)]) ''123'' ''key'' [])) = False"
    using checker [of detail_us] example_bodies_fit(7) by auto
  from c1 c2 c3 c4 c5 c6 c7 c8 c9 c10 c11 c12 show ?thesis by blast
qed

end
